theory Spec2Isabelle
  imports Complex_Main "HOL-Library.AList" "HOL-Library.Sublist" "HOL-Library.Log_Nat"
begin

section \<open>Identifier types (types/unified-device.ts)\<close>

text \<open>The enum \<^verbatim>\<open>Platform\<close>; \<open>Platform_str\<close> gives the string value of each member,
  which is what a template literal interpolates.\<close>

datatype Platform = SMARTTHINGS | TUYA | LUTRON

fun Platform_str :: "Platform \<Rightarrow> string" where
  "Platform_str SMARTTHINGS = ''smartthings''"
| "Platform_str TUYA = ''tuya''"
| "Platform_str LUTRON = ''lutron''"

text \<open>The enum \<^verbatim>\<open>DeviceCapability\<close>, in declaration order, with its string values.\<close>

datatype DeviceCapability =
    SWITCH | DIMMER | COLOR | COLOR_TEMPERATURE | THERMOSTAT | LOCK | SHADE | FAN | VALVE
  | ALARM | DOOR_CONTROL
  | TEMPERATURE_SENSOR | HUMIDITY_SENSOR | MOTION_SENSOR | CONTACT_SENSOR | OCCUPANCY_SENSOR
  | ILLUMINANCE_SENSOR | BATTERY | AIR_QUALITY_SENSOR | WATER_LEAK_SENSOR | SMOKE_DETECTOR
  | BUTTON | PRESSURE_SENSOR | CO_DETECTOR | SOUND_SENSOR
  | ENERGY_METER | SPEAKER | MEDIA_PLAYER | CAMERA | ROBOT_VACUUM | IR_BLASTER

fun DeviceCapability_str :: "DeviceCapability \<Rightarrow> string" where
  "DeviceCapability_str SWITCH = ''switch''"
| "DeviceCapability_str DIMMER = ''dimmer''"
| "DeviceCapability_str COLOR = ''color''"
| "DeviceCapability_str COLOR_TEMPERATURE = ''colorTemperature''"
| "DeviceCapability_str THERMOSTAT = ''thermostat''"
| "DeviceCapability_str LOCK = ''lock''"
| "DeviceCapability_str SHADE = ''shade''"
| "DeviceCapability_str FAN = ''fan''"
| "DeviceCapability_str VALVE = ''valve''"
| "DeviceCapability_str ALARM = ''alarm''"
| "DeviceCapability_str DOOR_CONTROL = ''doorControl''"
| "DeviceCapability_str TEMPERATURE_SENSOR = ''temperatureSensor''"
| "DeviceCapability_str HUMIDITY_SENSOR = ''humiditySensor''"
| "DeviceCapability_str MOTION_SENSOR = ''motionSensor''"
| "DeviceCapability_str CONTACT_SENSOR = ''contactSensor''"
| "DeviceCapability_str OCCUPANCY_SENSOR = ''occupancySensor''"
| "DeviceCapability_str ILLUMINANCE_SENSOR = ''illuminanceSensor''"
| "DeviceCapability_str BATTERY = ''battery''"
| "DeviceCapability_str AIR_QUALITY_SENSOR = ''airQualitySensor''"
| "DeviceCapability_str WATER_LEAK_SENSOR = ''waterLeakSensor''"
| "DeviceCapability_str SMOKE_DETECTOR = ''smokeDetector''"
| "DeviceCapability_str BUTTON = ''button''"
| "DeviceCapability_str PRESSURE_SENSOR = ''pressureSensor''"
| "DeviceCapability_str CO_DETECTOR = ''coDetector''"
| "DeviceCapability_str SOUND_SENSOR = ''soundSensor''"
| "DeviceCapability_str ENERGY_METER = ''energyMeter''"
| "DeviceCapability_str SPEAKER = ''speaker''"
| "DeviceCapability_str MEDIA_PLAYER = ''mediaPlayer''"
| "DeviceCapability_str CAMERA = ''camera''"
| "DeviceCapability_str ROBOT_VACUUM = ''robotVacuum''"
| "DeviceCapability_str IR_BLASTER = ''irBlaster''"

text \<open>\<^verbatim>\<open>Object.values(DeviceCapability)\<close>: every member of the enum, once.\<close>

definition DeviceCapability_values :: "DeviceCapability list" where
  "DeviceCapability_values =
    [SWITCH, DIMMER, COLOR, COLOR_TEMPERATURE, THERMOSTAT, LOCK, SHADE, FAN, VALVE,
     ALARM, DOOR_CONTROL,
     TEMPERATURE_SENSOR, HUMIDITY_SENSOR, MOTION_SENSOR, CONTACT_SENSOR, OCCUPANCY_SENSOR,
     ILLUMINANCE_SENSOR, BATTERY, AIR_QUALITY_SENSOR, WATER_LEAK_SENSOR, SMOKE_DETECTOR,
     BUTTON, PRESSURE_SENSOR, CO_DETECTOR, SOUND_SENSOR,
     ENERGY_METER, SPEAKER, MEDIA_PLAYER, CAMERA, ROBOT_VACUUM, IR_BLASTER]"

section \<open>The built-in Map\<close>

text \<open>A JavaScript \<^verbatim>\<open>Map\<close> keeps its entries in insertion order; \<^verbatim>\<open>set\<close> on a key
  that is present replaces the value where the entry stands, and on a new key appends an
  entry. It is an association list with \<open>AList.update\<close>.\<close>

type_synonym ('k, 'v) js_map = "('k \<times> 'v) list"

definition map_set :: "('k, 'v) js_map \<Rightarrow> 'k \<Rightarrow> 'v \<Rightarrow> ('k, 'v) js_map" where
  "map_set m k v = AList.update k v m"

definition map_get :: "('k, 'v) js_map \<Rightarrow> 'k \<Rightarrow> 'v option" where
  "map_get m k = map_of m k"

definition map_has :: "('k, 'v) js_map \<Rightarrow> 'k \<Rightarrow> bool" where
  "map_has m k = (map_of m k \<noteq> None)"

definition map_size :: "('k, 'v) js_map \<Rightarrow> nat" where
  "map_size m = length m"

text \<open>\<^verbatim>\<open>String.prototype.startsWith\<close>.\<close>

definition startsWith :: "string \<Rightarrow> string \<Rightarrow> bool" where
  "startsWith s pre = prefix pre s"

section \<open>CapabilityRegistry (types/capability-registry.ts)\<close>

text \<open>The interface \<^verbatim>\<open>PlatformCapabilityMapping\<close>; a field declared with \<^verbatim>\<open>?\<close> is an
  option, \<open>None\<close> when the object literal leaves it out.\<close>

record PlatformCapabilityMapping =
  platform :: Platform
  platformCapability :: string
  unifiedCapability :: DeviceCapability
  conversionRequired :: bool
  "notes" :: "string option"
  deprecated :: "bool option"
  deprecationMessage :: "string option"

text \<open>The static state of the class: the two maps, and the lines that
  \<^verbatim>\<open>console.warn\<close> has written (the only effect of the class outside its maps).\<close>

record CapabilityRegistry =
  mappings :: "(string, PlatformCapabilityMapping) js_map"
  reverseMappings :: "(string, string) js_map"
  console_warn :: "string list"

text \<open>\<^verbatim>\<open>makeKey\<close>: the template literal \<^verbatim>\<open>`${platform}:${capability}`\<close>. The second
  argument is a string; an enum member is passed as its string value.\<close>

definition makeKey :: "Platform \<Rightarrow> string \<Rightarrow> string" where
  "makeKey p capability = Platform_str p @ '':'' @ capability"

text \<open>The truthiness test \<^verbatim>\<open>mapping.deprecated && mapping.deprecationMessage\<close>: an absent
  field is \<^verbatim>\<open>undefined\<close>, and the empty string is falsy.\<close>

definition deprecation_warning :: "PlatformCapabilityMapping \<Rightarrow> bool" where
  "deprecation_warning m =
     (deprecated m = Some True \<and> deprecationMessage m \<noteq> None \<and> deprecationMessage m \<noteq> Some [])"

definition register :: "PlatformCapabilityMapping \<Rightarrow> CapabilityRegistry \<Rightarrow> CapabilityRegistry" where
  "register mapping r =
     (let key = makeKey (platform mapping) (platformCapability mapping);
          reverseKey = makeKey (platform mapping) (DeviceCapability_str (unifiedCapability mapping));
          r1 = r\<lparr>mappings := map_set (mappings r) key mapping\<rparr>;
          r2 = r1\<lparr>reverseMappings := map_set (reverseMappings r1) reverseKey (platformCapability mapping)\<rparr>
      in if deprecation_warning mapping
         then r2\<lparr>console_warn := console_warn r2 @
                  [''[CapabilityRegistry] Deprecated capability registered: '' @ key @ '' - '' @
                   the (deprecationMessage mapping)]\<rparr>
         else r2)"

definition getUnifiedCapability :: "CapabilityRegistry \<Rightarrow> Platform \<Rightarrow> string \<Rightarrow> DeviceCapability option" where
  "getUnifiedCapability r p platformCap =
     (let key = makeKey p platformCap
      in case map_get (mappings r) key of
           None \<Rightarrow> None
         | Some mapping \<Rightarrow> Some (unifiedCapability mapping))"

definition getPlatformCapability :: "CapabilityRegistry \<Rightarrow> Platform \<Rightarrow> DeviceCapability \<Rightarrow> string option" where
  "getPlatformCapability r p unifiedCap =
     (let reverseKey = makeKey p (DeviceCapability_str unifiedCap)
      in map_get (reverseMappings r) reverseKey)"

definition isPlatformSupported :: "CapabilityRegistry \<Rightarrow> Platform \<Rightarrow> DeviceCapability \<Rightarrow> bool" where
  "isPlatformSupported r p cap =
     (let reverseKey = makeKey p (DeviceCapability_str cap)
      in map_has (reverseMappings r) reverseKey)"

text \<open>The two \<^verbatim>\<open>for ... of\<close> loops walk the entries in insertion order and push one
  element for each entry whose key starts with the platform's prefix.\<close>

fun getSupportedCapabilities_loop ::
  "Platform \<Rightarrow> (string, PlatformCapabilityMapping) js_map \<Rightarrow> DeviceCapability list \<Rightarrow> DeviceCapability list" where
  "getSupportedCapabilities_loop p [] capabilities = capabilities"
| "getSupportedCapabilities_loop p ((key, mapping) # rest) capabilities =
     (if startsWith key (Platform_str p @ '':'')
      then getSupportedCapabilities_loop p rest (capabilities @ [unifiedCapability mapping])
      else getSupportedCapabilities_loop p rest capabilities)"

definition getSupportedCapabilities :: "CapabilityRegistry \<Rightarrow> Platform \<Rightarrow> DeviceCapability list" where
  "getSupportedCapabilities r p = getSupportedCapabilities_loop p (mappings r) []"

fun getPlatformCapabilities_loop ::
  "Platform \<Rightarrow> (string, PlatformCapabilityMapping) js_map \<Rightarrow> string list \<Rightarrow> string list" where
  "getPlatformCapabilities_loop p [] capabilities = capabilities"
| "getPlatformCapabilities_loop p ((key, mapping) # rest) capabilities =
     (if startsWith key (Platform_str p @ '':'')
      then getPlatformCapabilities_loop p rest (capabilities @ [platformCapability mapping])
      else getPlatformCapabilities_loop p rest capabilities)"

definition getPlatformCapabilities :: "CapabilityRegistry \<Rightarrow> Platform \<Rightarrow> string list" where
  "getPlatformCapabilities r p = getPlatformCapabilities_loop p (mappings r) []"

definition getMapping :: "CapabilityRegistry \<Rightarrow> Platform \<Rightarrow> string \<Rightarrow> PlatformCapabilityMapping option" where
  "getMapping r p platformCap = (let key = makeKey p platformCap in map_get (mappings r) key)"

definition clear :: "CapabilityRegistry \<Rightarrow> CapabilityRegistry" where
  "clear r = r\<lparr>mappings := [], reverseMappings := []\<rparr>"

definition getMappingCount :: "CapabilityRegistry \<Rightarrow> nat" where
  "getMappingCount r = map_size (mappings r)"

text \<open>A run of \<^verbatim>\<open>register\<close> calls, one after the other.\<close>

fun register_all :: "PlatformCapabilityMapping list \<Rightarrow> CapabilityRegistry \<Rightarrow> CapabilityRegistry" where
  "register_all [] r = r"
| "register_all (mapping # rest) r = register_all rest (register mapping r)"

text \<open>The argument of each \<^verbatim>\<open>CapabilityRegistry.register\<close> call of
  \<^verbatim>\<open>initializeCapabilityMappings\<close>, in the order of the calls. The arrow of the notes is
  U+2192, written as its UTF-8 bytes.\<close>

definition standard_mappings :: "PlatformCapabilityMapping list" where
  "standard_mappings =
  [ \<lparr>platform = SMARTTHINGS, platformCapability = ''switch'', unifiedCapability = SWITCH,
      conversionRequired = False, notes = None,
      deprecated = None, deprecationMessage = None\<rparr>,
    \<lparr>platform = SMARTTHINGS, platformCapability = ''switchLevel'', unifiedCapability = DIMMER,
      conversionRequired = False, notes = None,
      deprecated = None, deprecationMessage = None\<rparr>,
    \<lparr>platform = SMARTTHINGS, platformCapability = ''colorControl'', unifiedCapability = COLOR,
      conversionRequired = True, notes = Some (''Hue: 0-100 (%) '' @ [CHR 0xE2, CHR 0x86, CHR 0x92] @ '' 0-360 (degrees)''),
      deprecated = None, deprecationMessage = None\<rparr>,
    \<lparr>platform = SMARTTHINGS, platformCapability = ''colorTemperature'', unifiedCapability = COLOR_TEMPERATURE,
      conversionRequired = False, notes = None,
      deprecated = None, deprecationMessage = None\<rparr>,
    \<lparr>platform = SMARTTHINGS, platformCapability = ''thermostat'', unifiedCapability = THERMOSTAT,
      conversionRequired = False, notes = Some ''Composite of 8 SmartThings capabilities'',
      deprecated = None, deprecationMessage = None\<rparr>,
    \<lparr>platform = SMARTTHINGS, platformCapability = ''lock'', unifiedCapability = LOCK,
      conversionRequired = False, notes = None,
      deprecated = None, deprecationMessage = None\<rparr>,
    \<lparr>platform = SMARTTHINGS, platformCapability = ''windowShade'', unifiedCapability = SHADE,
      conversionRequired = False, notes = None,
      deprecated = None, deprecationMessage = None\<rparr>,
    \<lparr>platform = SMARTTHINGS, platformCapability = ''fanSpeed'', unifiedCapability = FAN,
      conversionRequired = False, notes = None,
      deprecated = None, deprecationMessage = None\<rparr>,
    \<lparr>platform = SMARTTHINGS, platformCapability = ''valve'', unifiedCapability = VALVE,
      conversionRequired = False, notes = None,
      deprecated = None, deprecationMessage = None\<rparr>,
    \<lparr>platform = SMARTTHINGS, platformCapability = ''alarm'', unifiedCapability = ALARM,
      conversionRequired = False, notes = None,
      deprecated = None, deprecationMessage = None\<rparr>,
    \<lparr>platform = SMARTTHINGS, platformCapability = ''doorControl'', unifiedCapability = DOOR_CONTROL,
      conversionRequired = False, notes = None,
      deprecated = None, deprecationMessage = None\<rparr>,
    \<lparr>platform = SMARTTHINGS, platformCapability = ''garageDoorControl'', unifiedCapability = DOOR_CONTROL,
      conversionRequired = False, notes = Some ''Alias for doorControl'',
      deprecated = None, deprecationMessage = None\<rparr>,
    \<lparr>platform = SMARTTHINGS, platformCapability = ''temperatureMeasurement'', unifiedCapability = TEMPERATURE_SENSOR,
      conversionRequired = False, notes = None,
      deprecated = None, deprecationMessage = None\<rparr>,
    \<lparr>platform = SMARTTHINGS, platformCapability = ''relativeHumidityMeasurement'', unifiedCapability = HUMIDITY_SENSOR,
      conversionRequired = False, notes = None,
      deprecated = None, deprecationMessage = None\<rparr>,
    \<lparr>platform = SMARTTHINGS, platformCapability = ''motionSensor'', unifiedCapability = MOTION_SENSOR,
      conversionRequired = False, notes = None,
      deprecated = None, deprecationMessage = None\<rparr>,
    \<lparr>platform = SMARTTHINGS, platformCapability = ''contactSensor'', unifiedCapability = CONTACT_SENSOR,
      conversionRequired = False, notes = None,
      deprecated = None, deprecationMessage = None\<rparr>,
    \<lparr>platform = SMARTTHINGS, platformCapability = ''illuminanceMeasurement'', unifiedCapability = ILLUMINANCE_SENSOR,
      conversionRequired = False, notes = None,
      deprecated = None, deprecationMessage = None\<rparr>,
    \<lparr>platform = SMARTTHINGS, platformCapability = ''battery'', unifiedCapability = BATTERY,
      conversionRequired = False, notes = None,
      deprecated = None, deprecationMessage = None\<rparr>,
    \<lparr>platform = SMARTTHINGS, platformCapability = ''airQualitySensor'', unifiedCapability = AIR_QUALITY_SENSOR,
      conversionRequired = False, notes = None,
      deprecated = None, deprecationMessage = None\<rparr>,
    \<lparr>platform = SMARTTHINGS, platformCapability = ''waterSensor'', unifiedCapability = WATER_LEAK_SENSOR,
      conversionRequired = False, notes = None,
      deprecated = None, deprecationMessage = None\<rparr>,
    \<lparr>platform = SMARTTHINGS, platformCapability = ''smokeDetector'', unifiedCapability = SMOKE_DETECTOR,
      conversionRequired = False, notes = None,
      deprecated = None, deprecationMessage = None\<rparr>,
    \<lparr>platform = SMARTTHINGS, platformCapability = ''button'', unifiedCapability = BUTTON,
      conversionRequired = False, notes = None,
      deprecated = None, deprecationMessage = None\<rparr>,
    \<lparr>platform = SMARTTHINGS, platformCapability = ''pressureMeasurement'', unifiedCapability = PRESSURE_SENSOR,
      conversionRequired = False, notes = None,
      deprecated = None, deprecationMessage = None\<rparr>,
    \<lparr>platform = SMARTTHINGS, platformCapability = ''carbonMonoxideDetector'', unifiedCapability = CO_DETECTOR,
      conversionRequired = False, notes = None,
      deprecated = None, deprecationMessage = None\<rparr>,
    \<lparr>platform = SMARTTHINGS, platformCapability = ''soundPressureLevel'', unifiedCapability = SOUND_SENSOR,
      conversionRequired = False, notes = None,
      deprecated = None, deprecationMessage = None\<rparr>,
    \<lparr>platform = SMARTTHINGS, platformCapability = ''powerMeter'', unifiedCapability = ENERGY_METER,
      conversionRequired = False, notes = Some ''Composite with energyMeter'',
      deprecated = None, deprecationMessage = None\<rparr>,
    \<lparr>platform = SMARTTHINGS, platformCapability = ''audioVolume'', unifiedCapability = SPEAKER,
      conversionRequired = False, notes = None,
      deprecated = None, deprecationMessage = None\<rparr>,
    \<lparr>platform = SMARTTHINGS, platformCapability = ''mediaPlayback'', unifiedCapability = MEDIA_PLAYER,
      conversionRequired = False, notes = None,
      deprecated = None, deprecationMessage = None\<rparr>,
    \<lparr>platform = SMARTTHINGS, platformCapability = ''videoStream'', unifiedCapability = CAMERA,
      conversionRequired = False, notes = None,
      deprecated = None, deprecationMessage = None\<rparr>,
    \<lparr>platform = SMARTTHINGS, platformCapability = ''robotCleanerMovement'', unifiedCapability = ROBOT_VACUUM,
      conversionRequired = False, notes = None,
      deprecated = None, deprecationMessage = None\<rparr>,
    \<lparr>platform = SMARTTHINGS, platformCapability = ''infraredLevel'', unifiedCapability = IR_BLASTER,
      conversionRequired = False, notes = None,
      deprecated = None, deprecationMessage = None\<rparr>,
    \<lparr>platform = SMARTTHINGS, platformCapability = ''momentary'', unifiedCapability = BUTTON,
      conversionRequired = False, notes = None,
      deprecated = Some True, deprecationMessage = Some (''Use '' @ [CHR 0x22] @ ''button'' @ [CHR 0x22] @ '' capability instead'')\<rparr>,
    \<lparr>platform = TUYA, platformCapability = ''switch_led'', unifiedCapability = SWITCH,
      conversionRequired = False, notes = None,
      deprecated = None, deprecationMessage = None\<rparr>,
    \<lparr>platform = TUYA, platformCapability = ''bright_value'', unifiedCapability = DIMMER,
      conversionRequired = True, notes = Some (''0-1000 '' @ [CHR 0xE2, CHR 0x86, CHR 0x92] @ '' 0-100''),
      deprecated = None, deprecationMessage = None\<rparr>,
    \<lparr>platform = TUYA, platformCapability = ''colour_data'', unifiedCapability = COLOR,
      conversionRequired = True, notes = Some (''HSV JSON string '' @ [CHR 0xE2, CHR 0x86, CHR 0x92] @ '' HSV object''),
      deprecated = None, deprecationMessage = None\<rparr>,
    \<lparr>platform = TUYA, platformCapability = ''temp_value'', unifiedCapability = COLOR_TEMPERATURE,
      conversionRequired = True, notes = Some (''Device-specific range '' @ [CHR 0xE2, CHR 0x86, CHR 0x92] @ '' Kelvin''),
      deprecated = None, deprecationMessage = None\<rparr>,
    \<lparr>platform = TUYA, platformCapability = ''temp_set'', unifiedCapability = THERMOSTAT,
      conversionRequired = False, notes = None,
      deprecated = None, deprecationMessage = None\<rparr>,
    \<lparr>platform = TUYA, platformCapability = ''lock_motor_state'', unifiedCapability = LOCK,
      conversionRequired = True, notes = Some ''Map Tuya lock states'',
      deprecated = None, deprecationMessage = None\<rparr>,
    \<lparr>platform = TUYA, platformCapability = ''position'', unifiedCapability = SHADE,
      conversionRequired = False, notes = None,
      deprecated = None, deprecationMessage = None\<rparr>,
    \<lparr>platform = TUYA, platformCapability = ''fan_speed'', unifiedCapability = FAN,
      conversionRequired = False, notes = None,
      deprecated = None, deprecationMessage = None\<rparr>,
    \<lparr>platform = TUYA, platformCapability = ''switch_1'', unifiedCapability = VALVE,
      conversionRequired = False, notes = None,
      deprecated = None, deprecationMessage = None\<rparr>,
    \<lparr>platform = TUYA, platformCapability = ''alarm_switch'', unifiedCapability = ALARM,
      conversionRequired = False, notes = None,
      deprecated = None, deprecationMessage = None\<rparr>,
    \<lparr>platform = TUYA, platformCapability = ''temp_current'', unifiedCapability = TEMPERATURE_SENSOR,
      conversionRequired = True, notes = Some ''C/F conversion may be needed'',
      deprecated = None, deprecationMessage = None\<rparr>,
    \<lparr>platform = TUYA, platformCapability = ''humidity_value'', unifiedCapability = HUMIDITY_SENSOR,
      conversionRequired = False, notes = None,
      deprecated = None, deprecationMessage = None\<rparr>,
    \<lparr>platform = TUYA, platformCapability = ''pir'', unifiedCapability = MOTION_SENSOR,
      conversionRequired = True, notes = Some ''Map pir/none to active/inactive'',
      deprecated = None, deprecationMessage = None\<rparr>,
    \<lparr>platform = TUYA, platformCapability = ''doorcontact_state'', unifiedCapability = CONTACT_SENSOR,
      conversionRequired = True, notes = Some ''Map boolean to open/closed'',
      deprecated = None, deprecationMessage = None\<rparr>,
    \<lparr>platform = TUYA, platformCapability = ''battery_percentage'', unifiedCapability = BATTERY,
      conversionRequired = False, notes = None,
      deprecated = None, deprecationMessage = None\<rparr>,
    \<lparr>platform = TUYA, platformCapability = ''pm25_value'', unifiedCapability = AIR_QUALITY_SENSOR,
      conversionRequired = False, notes = None,
      deprecated = None, deprecationMessage = None\<rparr>,
    \<lparr>platform = TUYA, platformCapability = ''watersensor_state'', unifiedCapability = WATER_LEAK_SENSOR,
      conversionRequired = True, notes = Some ''Map Tuya states to dry/wet'',
      deprecated = None, deprecationMessage = None\<rparr>,
    \<lparr>platform = TUYA, platformCapability = ''smoke_sensor_status'', unifiedCapability = SMOKE_DETECTOR,
      conversionRequired = True, notes = Some ''Map Tuya states'',
      deprecated = None, deprecationMessage = None\<rparr>,
    \<lparr>platform = TUYA, platformCapability = ''cur_power'', unifiedCapability = ENERGY_METER,
      conversionRequired = False, notes = None,
      deprecated = None, deprecationMessage = None\<rparr>,
    \<lparr>platform = TUYA, platformCapability = ''volume'', unifiedCapability = SPEAKER,
      conversionRequired = False, notes = None,
      deprecated = None, deprecationMessage = None\<rparr>,
    \<lparr>platform = TUYA, platformCapability = ''work_state'', unifiedCapability = MEDIA_PLAYER,
      conversionRequired = True, notes = Some ''Map work_state enum'',
      deprecated = None, deprecationMessage = None\<rparr>,
    \<lparr>platform = TUYA, platformCapability = ''basic_device_status'', unifiedCapability = CAMERA,
      conversionRequired = True, notes = Some ''Complex mapping'',
      deprecated = None, deprecationMessage = None\<rparr>,
    \<lparr>platform = LUTRON, platformCapability = ''OUTPUT'', unifiedCapability = SWITCH,
      conversionRequired = True, notes = Some ''Binary 0% or 100% only'',
      deprecated = None, deprecationMessage = None\<rparr>,
    \<lparr>platform = LUTRON, platformCapability = ''OUTPUT'', unifiedCapability = DIMMER,
      conversionRequired = True, notes = Some ''Round 0.00-100.00 to 0-100'',
      deprecated = None, deprecationMessage = None\<rparr>,
    \<lparr>platform = LUTRON, platformCapability = ''POSITION'', unifiedCapability = SHADE,
      conversionRequired = False, notes = None,
      deprecated = None, deprecationMessage = None\<rparr>,
    \<lparr>platform = LUTRON, platformCapability = ''TILT'', unifiedCapability = SHADE,
      conversionRequired = False, notes = Some ''Shade tilt control'',
      deprecated = None, deprecationMessage = None\<rparr>,
    \<lparr>platform = LUTRON, platformCapability = ''OCCUPANCY'', unifiedCapability = OCCUPANCY_SENSOR,
      conversionRequired = True, notes = Some ''Map occupied/unoccupied'',
      deprecated = None, deprecationMessage = None\<rparr>,
    \<lparr>platform = LUTRON, platformCapability = ''FAN_SPEED'', unifiedCapability = FAN,
      conversionRequired = False, notes = Some ''RadioRA3 only'',
      deprecated = None, deprecationMessage = None\<rparr> ]"

definition initializeCapabilityMappings :: "CapabilityRegistry \<Rightarrow> CapabilityRegistry" where
  "initializeCapabilityMappings r = register_all standard_mappings r"

section \<open>JavaScript values and numbers\<close>

text \<open>A Number is a binary64 float. The finite ones are modelled by their exact rational
  value, and every arithmetic operation rounds the exact result to the nearest binary64
  (ties to even), with overflow to an infinity and the subnormal range below
  \<open>2\<^sup>-\<^sup>1\<^sup>0\<^sup>2\<^sup>2\<close>. The sign of zero is not represented: \<open>Finite 0\<close> stands for \<open>+0\<close>.\<close>

datatype jsnum = NaN | PosInfinity | NegInfinity | Finite rat

definition pow2 :: "int \<Rightarrow> rat" where
  "pow2 e = (if 0 \<le> e then 2 ^ nat e else 1 / 2 ^ nat (- e))"

text \<open>\<open>floor_log2 x\<close> is the binary exponent of a positive rational: the \<open>e\<close> with
  \<open>2\<^sup>e \<le> x < 2\<^sup>e\<^sup>+\<^sup>1\<close>, found from the bit lengths of numerator and denominator.\<close>

definition floor_log2 :: "rat \<Rightarrow> int" where
  "floor_log2 x =
     (let a = fst (quotient_of x); b = snd (quotient_of x);
          e = bitlen a - bitlen b
      in if pow2 e \<le> x then e else e - 1)"

definition round_half_even :: "rat \<Rightarrow> int" where
  "round_half_even y =
     (let f = \<lfloor>y\<rfloor>; d = y - of_int f
      in if d < 1 / 2 then f else if 1 / 2 < d then f + 1 else if even f then f else f + 1)"

definition round_double :: "rat \<Rightarrow> jsnum" where
  "round_double x =
     (if x = 0 then Finite 0
      else let e = max (floor_log2 \<bar>x\<bar>) (- 1022);
               q = pow2 (e - 52);
               y = of_int (round_half_even (x / q)) * q
           in if pow2 1024 \<le> \<bar>y\<bar> then (if 0 < x then PosInfinity else NegInfinity)
              else Finite y)"

text \<open>The operators \<^verbatim>\<open>*\<close> and \<^verbatim>\<open>/\<close> on Numbers.\<close>

fun jsnum_negative :: "jsnum \<Rightarrow> bool" where
  "jsnum_negative NegInfinity = True"
| "jsnum_negative (Finite x) = (x < 0)"
| "jsnum_negative _ = False"

definition signed_infinity :: "bool \<Rightarrow> jsnum" where
  "signed_infinity neg = (if neg then NegInfinity else PosInfinity)"

fun js_times :: "jsnum \<Rightarrow> jsnum \<Rightarrow> jsnum" where
  "js_times NaN _ = NaN"
| "js_times _ NaN = NaN"
| "js_times (Finite x) (Finite y) = round_double (x * y)"
| "js_times (Finite x) b = (if x = 0 then NaN else signed_infinity (jsnum_negative (Finite x) \<noteq> jsnum_negative b))"
| "js_times a (Finite y) = (if y = 0 then NaN else signed_infinity (jsnum_negative a \<noteq> jsnum_negative (Finite y)))"
| "js_times a b = signed_infinity (jsnum_negative a \<noteq> jsnum_negative b)"

fun js_divide :: "jsnum \<Rightarrow> jsnum \<Rightarrow> jsnum" where
  "js_divide NaN _ = NaN"
| "js_divide _ NaN = NaN"
| "js_divide (Finite x) (Finite y) =
     (if y = 0 then (if x = 0 then NaN else signed_infinity (x < 0)) else round_double (x / y))"
| "js_divide (Finite x) b = Finite 0"
| "js_divide a (Finite y) = signed_infinity (jsnum_negative a \<noteq> jsnum_negative (Finite y))"
| "js_divide a b = NaN"

text \<open>\<^verbatim>\<open>Math.round\<close>: the nearest integer, a tie going towards \<open>+\<infinity>\<close>.\<close>

fun Math_round :: "jsnum \<Rightarrow> jsnum" where
  "Math_round (Finite x) = Finite (of_int \<lfloor>x + 1 / 2\<rfloor>)"
| "Math_round n = n"

text \<open>\<^verbatim>\<open>Number(x.toFixed(2))\<close> on a Number: \<^verbatim>\<open>toFixed\<close> takes the integer \<open>n\<close> with
  \<open>n / 100\<close> nearest to the magnitude (the larger one at a tie) and prints it as a decimal,
  which \<^verbatim>\<open>Number\<close> reads back as the nearest binary64; from \<open>10\<^sup>2\<^sup>1\<close> on it prints
  the number itself.\<close>

fun Number_toFixed2 :: "jsnum \<Rightarrow> jsnum" where
  "Number_toFixed2 (Finite x) =
     (if 10 ^ 21 \<le> \<bar>x\<bar> then Finite x
      else round_double (sgn x * of_int \<lfloor>\<bar>x\<bar> * 100 + 1 / 2\<rfloor> / 100))"
| "Number_toFixed2 n = n"

text \<open>The literals \<^verbatim>\<open>10\<close>, \<^verbatim>\<open>3.6\<close> and \<^verbatim>\<open>2.55\<close>: the binary64 nearest to the decimal.\<close>

definition lit_10 :: jsnum where "lit_10 = round_double 10"
definition lit_3_6 :: jsnum where "lit_3_6 = round_double (36 / 10)"
definition lit_2_55 :: jsnum where "lit_2_55 = round_double (255 / 100)"

text \<open>The values a converter can meet: the primitives, arrays and plain objects (what
  \<^verbatim>\<open>JSON.parse\<close> returns and what the object literals of the converters build).\<close>

datatype jsvalue =
    JUndefined | JNull | JBool bool | JNum jsnum | JStr string
  | JArr "jsvalue list" | JObj "(string \<times> jsvalue) list"

datatype error = TypeError | SyntaxError

text \<open>The built-ins of the host that the converters call and this development does not
  define: \<^verbatim>\<open>JSON.parse\<close> (on any argument; it throws on text that is not JSON),
  \<^verbatim>\<open>JSON.stringify\<close>, and the conversion to a Number of a string, an array or an
  object.\<close>

record host =
  JSON_parse :: "jsvalue \<Rightarrow> error + jsvalue"
  JSON_stringify :: "jsvalue \<Rightarrow> string"
  ToNumber_object :: "jsvalue \<Rightarrow> error + jsnum"

fun ToNumber :: "host \<Rightarrow> jsvalue \<Rightarrow> error + jsnum" where
  "ToNumber h JUndefined = Inr NaN"
| "ToNumber h JNull = Inr (Finite 0)"
| "ToNumber h (JBool b) = Inr (Finite (if b then 1 else 0))"
| "ToNumber h (JNum n) = Inr n"
| "ToNumber h v = ToNumber_object h v"

text \<open>Reading a property \<^verbatim>\<open>v.name\<close> with a name that no prototype defines: a TypeError on
  \<^verbatim>\<open>undefined\<close> and \<^verbatim>\<open>null\<close>, the own property of an object, \<^verbatim>\<open>undefined\<close> otherwise.\<close>

fun get_prop :: "jsvalue \<Rightarrow> string \<Rightarrow> error + jsvalue" where
  "get_prop JUndefined name = Inl TypeError"
| "get_prop JNull name = Inl TypeError"
| "get_prop (JObj props) name = Inr (case map_of props name of None \<Rightarrow> JUndefined | Some v \<Rightarrow> v)"
| "get_prop _ name = Inr JUndefined"

text \<open>Sequencing of computations that may throw.\<close>

fun bind_err :: "'e + 'a \<Rightarrow> ('a \<Rightarrow> 'e + 'b) \<Rightarrow> 'e + 'b" where
  "bind_err (Inl e) f = Inl e"
| "bind_err (Inr x) f = f x"

section \<open>ValueConversionRegistry (types/capability-registry.ts)\<close>

text \<open>The interface \<^verbatim>\<open>ValueConversionMapping\<close>. A converter is a function that returns a
  value or throws; the registry stores it whatever its declared types are, so the model is
  polymorphic in the values \<open>'v\<close> and in the errors \<open>'e\<close>. The field \<^verbatim>\<open>platform\<close> of the
  interface is \<open>conv_platform\<close> here, the other record having taken the name.\<close>

record ('e, 'v) ValueConversionMapping =
  conv_platform :: Platform
  capability :: DeviceCapability
  attribute :: string
  toPlatform :: "'v \<Rightarrow> 'e + 'v"
  fromPlatform :: "'v \<Rightarrow> 'e + 'v"
  description :: string

record ('e, 'v) ValueConversionRegistry =
  conversions :: "(string, ('e, 'v) ValueConversionMapping) js_map"

definition ValueConversionRegistry_makeKey :: "Platform \<Rightarrow> DeviceCapability \<Rightarrow> string \<Rightarrow> string" where
  "ValueConversionRegistry_makeKey p c a =
     Platform_str p @ '':'' @ DeviceCapability_str c @ '':'' @ a"

definition ValueConversionRegistry_register ::
  "('e, 'v) ValueConversionMapping \<Rightarrow> ('e, 'v) ValueConversionRegistry \<Rightarrow> ('e, 'v) ValueConversionRegistry" where
  "ValueConversionRegistry_register conversion r =
     (let key = ValueConversionRegistry_makeKey (conv_platform conversion) (capability conversion)
                  (attribute conversion)
      in r\<lparr>conversions := map_set (conversions r) key conversion\<rparr>)"

definition ValueConversionRegistry_toPlatform ::
  "('e, 'v) ValueConversionRegistry \<Rightarrow> Platform \<Rightarrow> DeviceCapability \<Rightarrow> string \<Rightarrow> 'v \<Rightarrow> 'e + 'v" where
  "ValueConversionRegistry_toPlatform r p c a v =
     (let key = ValueConversionRegistry_makeKey p c a
      in case map_get (conversions r) key of
           None \<Rightarrow> Inr v
         | Some conversion \<Rightarrow> toPlatform conversion v)"

definition ValueConversionRegistry_fromPlatform ::
  "('e, 'v) ValueConversionRegistry \<Rightarrow> Platform \<Rightarrow> DeviceCapability \<Rightarrow> string \<Rightarrow> 'v \<Rightarrow> 'e + 'v" where
  "ValueConversionRegistry_fromPlatform r p c a v =
     (let key = ValueConversionRegistry_makeKey p c a
      in case map_get (conversions r) key of
           None \<Rightarrow> Inr v
         | Some conversion \<Rightarrow> fromPlatform conversion v)"

definition hasConversion ::
  "('e, 'v) ValueConversionRegistry \<Rightarrow> Platform \<Rightarrow> DeviceCapability \<Rightarrow> string \<Rightarrow> bool" where
  "hasConversion r p c a = (let key = ValueConversionRegistry_makeKey p c a in map_has (conversions r) key)"

definition getConversion ::
  "('e, 'v) ValueConversionRegistry \<Rightarrow> Platform \<Rightarrow> DeviceCapability \<Rightarrow> string
     \<Rightarrow> ('e, 'v) ValueConversionMapping option" where
  "getConversion r p c a = (let key = ValueConversionRegistry_makeKey p c a in map_get (conversions r) key)"

definition ValueConversionRegistry_clear ::
  "('e, 'v) ValueConversionRegistry \<Rightarrow> ('e, 'v) ValueConversionRegistry" where
  "ValueConversionRegistry_clear r = r\<lparr>conversions := []\<rparr>"

definition getConversionCount :: "('e, 'v) ValueConversionRegistry \<Rightarrow> nat" where
  "getConversionCount r = map_size (conversions r)"

subsection \<open>The converters of \<^verbatim>\<open>initializeValueConversions\<close>\<close>

text \<open>Each arrow function of the source, on any argument: an arithmetic operator first
  converts its operand to a Number.\<close>

definition tuya_level_toPlatform :: "host \<Rightarrow> jsvalue \<Rightarrow> error + jsvalue" where
  "tuya_level_toPlatform h v =
     bind_err (ToNumber h v) (\<lambda>n. Inr (JNum (Math_round (js_times n lit_10))))"

definition tuya_level_fromPlatform :: "host \<Rightarrow> jsvalue \<Rightarrow> error + jsvalue" where
  "tuya_level_fromPlatform h v =
     bind_err (ToNumber h v) (\<lambda>n. Inr (JNum (Math_round (js_divide n lit_10))))"

definition smartthings_hue_toPlatform :: "host \<Rightarrow> jsvalue \<Rightarrow> error + jsvalue" where
  "smartthings_hue_toPlatform h v =
     bind_err (ToNumber h v) (\<lambda>n. Inr (JNum (Math_round (js_divide n lit_3_6))))"

definition smartthings_hue_fromPlatform :: "host \<Rightarrow> jsvalue \<Rightarrow> error + jsvalue" where
  "smartthings_hue_fromPlatform h v =
     bind_err (ToNumber h v) (\<lambda>n. Inr (JNum (Math_round (js_times n lit_3_6))))"

definition tuya_color_toPlatform :: "host \<Rightarrow> jsvalue \<Rightarrow> error + jsvalue" where
  "tuya_color_toPlatform h v =
     bind_err (get_prop v ''h'') (\<lambda>ph. bind_err (ToNumber h ph) (\<lambda>nh.
     bind_err (get_prop v ''s'') (\<lambda>ps. bind_err (ToNumber h ps) (\<lambda>ns.
     bind_err (get_prop v ''v'') (\<lambda>pv. bind_err (ToNumber h pv) (\<lambda>nv.
       Inr (JStr (JSON_stringify h (JObj
         [(''h'', JNum (Math_round nh)),
          (''s'', JNum (Math_round ns)),
          (''v'', JNum (Math_round (js_times nv lit_2_55)))])))))))))"

definition tuya_color_fromPlatform :: "host \<Rightarrow> jsvalue \<Rightarrow> error + jsvalue" where
  "tuya_color_fromPlatform h v =
     bind_err (JSON_parse h v) (\<lambda>parsed.
     bind_err (get_prop parsed ''h'') (\<lambda>ph.
     bind_err (get_prop parsed ''s'') (\<lambda>ps.
     bind_err (get_prop parsed ''v'') (\<lambda>pv. bind_err (ToNumber h pv) (\<lambda>nv.
       Inr (JObj
         [(''h'', ph),
          (''s'', ps),
          (''v'', JNum (Math_round (js_divide nv lit_2_55)))]))))))"

text \<open>\<^verbatim>\<open>value.toFixed\<close> is a function on a Number only: reading it throws on
  \<^verbatim>\<open>undefined\<close> and \<^verbatim>\<open>null\<close>, and calling what is not a function throws on the rest.\<close>

fun lutron_level_toPlatform :: "host \<Rightarrow> jsvalue \<Rightarrow> error + jsvalue" where
  "lutron_level_toPlatform h (JNum n) = Inr (JNum (Number_toFixed2 n))"
| "lutron_level_toPlatform h v = Inl TypeError"

definition lutron_level_fromPlatform :: "host \<Rightarrow> jsvalue \<Rightarrow> error + jsvalue" where
  "lutron_level_fromPlatform h v = bind_err (ToNumber h v) (\<lambda>n. Inr (JNum (Math_round n)))"

text \<open>The argument of each \<^verbatim>\<open>ValueConversionRegistry.register\<close> call, in the order of the
  calls. The double arrow of the descriptions is U+2194, written as its UTF-8 bytes.\<close>

definition standard_conversions :: "host \<Rightarrow> (error, jsvalue) ValueConversionMapping list" where
  "standard_conversions h =
  [ \<lparr>conv_platform = TUYA, capability = DIMMER, attribute = ''level'',
      toPlatform = tuya_level_toPlatform h, fromPlatform = tuya_level_fromPlatform h,
      description = ''Tuya brightness scale: 0-1000 '' @ [CHR 0xE2, CHR 0x86, CHR 0x94] @ '' 0-100''\<rparr>,
    \<lparr>conv_platform = SMARTTHINGS, capability = COLOR, attribute = ''hue'',
      toPlatform = smartthings_hue_toPlatform h, fromPlatform = smartthings_hue_fromPlatform h,
      description = ''SmartThings hue: 0-100% '' @ [CHR 0xE2, CHR 0x86, CHR 0x94] @ '' 0-360 degrees''\<rparr>,
    \<lparr>conv_platform = TUYA, capability = COLOR, attribute = ''color'',
      toPlatform = tuya_color_toPlatform h, fromPlatform = tuya_color_fromPlatform h,
      description = ''Tuya color: HSV JSON string '' @ [CHR 0xE2, CHR 0x86, CHR 0x94] @ '' HSV object''\<rparr>,
    \<lparr>conv_platform = LUTRON, capability = DIMMER, attribute = ''level'',
      toPlatform = lutron_level_toPlatform h, fromPlatform = lutron_level_fromPlatform h,
      description = ''Lutron output: Round 0.00-100.00 to 0-100''\<rparr> ]"

fun ValueConversionRegistry_register_all ::
  "('e, 'v) ValueConversionMapping list \<Rightarrow> ('e, 'v) ValueConversionRegistry \<Rightarrow> ('e, 'v) ValueConversionRegistry" where
  "ValueConversionRegistry_register_all [] r = r"
| "ValueConversionRegistry_register_all (conversion # rest) r =
     ValueConversionRegistry_register_all rest (ValueConversionRegistry_register conversion r)"

definition initializeValueConversions ::
  "host \<Rightarrow> (error, jsvalue) ValueConversionRegistry \<Rightarrow> (error, jsvalue) ValueConversionRegistry" where
  "initializeValueConversions h r = ValueConversionRegistry_register_all (standard_conversions h) r"

section \<open>Module load and notions used in the statements\<close>

text \<open>The static fields as their initialisers leave them (\<^verbatim>\<open>new Map()\<close>), before the two
  initialisation calls at the end of the module.\<close>

definition CapabilityRegistry_new :: CapabilityRegistry where
  "CapabilityRegistry_new = \<lparr>mappings = [], reverseMappings = [], console_warn = []\<rparr>"

definition ValueConversionRegistry_new :: "('e, 'v) ValueConversionRegistry" where
  "ValueConversionRegistry_new = \<lparr>conversions = []\<rparr>"

text \<open>The most recent call, in a list of calls in the order they were made, whose argument
  satisfies \<open>P\<close>.\<close>

definition most_recent :: "('a \<Rightarrow> bool) \<Rightarrow> 'a list \<Rightarrow> 'a option" where
  "most_recent P calls = (case filter P calls of [] \<Rightarrow> None | x # xs \<Rightarrow> Some (last (x # xs)))"

text \<open>A host fragment for the examples: its \<^verbatim>\<open>JSON.parse\<close> reads the documents
  \<^verbatim>\<open>null\<close> and \<^verbatim>\<open>{}\<close> and rejects every other argument.\<close>

definition example_host :: host where
  "example_host =
     \<lparr>JSON_parse = (\<lambda>v. if v = JStr ''null'' then Inr JNull
                          else if v = JStr ''{}'' then Inr (JObj [])
                          else Inl SyntaxError),
      JSON_stringify = (\<lambda>v. ''{}''),
      ToNumber_object = (\<lambda>v. Inr NaN)\<rparr>"

text \<open>The forward map of a registry that \<^verbatim>\<open>register\<close> built: no key twice, and every
  entry under the key of its own platform and name.\<close>

definition keyed :: "(string, PlatformCapabilityMapping) js_map \<Rightarrow> bool" where
  "keyed al \<longleftrightarrow> distinct (map fst al) \<and>
     (\<forall>e \<in> set al. fst e = makeKey (platform (snd e)) (platformCapability (snd e)))"

definition entries_of ::
  "Platform \<Rightarrow> (string, PlatformCapabilityMapping) js_map \<Rightarrow> (string \<times> PlatformCapabilityMapping) list" where
  "entries_of p al = filter (\<lambda>e. platform (snd e) = p) al"

text \<open>The entries that the two enumeration loops visit for a platform.\<close>

definition platform_entries ::
  "Platform \<Rightarrow> CapabilityRegistry \<Rightarrow> (string \<times> PlatformCapabilityMapping) list" where
  "platform_entries p r = filter (\<lambda>e. startsWith (fst e) (Platform_str p @ '':'')) (mappings r)"


section \<open>Lookup keys\<close>

lemma startsWith_makeKey:
  "startsWith (makeKey q n) (Platform_str p @ '':'') \<longleftrightarrow> p = q"
  by (cases p; cases q; simp add: startsWith_def makeKey_def)

lemma makeKey_eq_iff: "makeKey p a = makeKey q b \<longleftrightarrow> p = q \<and> a = b"
  by (cases p; cases q; simp add: makeKey_def)

lemma DeviceCapability_str_eq_iff:
  "DeviceCapability_str c = DeviceCapability_str d \<longleftrightarrow> c = d"
  by (cases c; cases d; simp)

lemma DeviceCapability_str_colon:
  "DeviceCapability_str c @ CHR '':'' # a = DeviceCapability_str d @ CHR '':'' # b \<longleftrightarrow> c = d \<and> a = b"
  by (cases c; cases d; simp)

lemma ValueConversionRegistry_makeKey_eq_iff:
  "ValueConversionRegistry_makeKey p c a = ValueConversionRegistry_makeKey q d b
     \<longleftrightarrow> p = q \<and> c = d \<and> a = b"
  by (cases p; cases q; simp add: ValueConversionRegistry_makeKey_def DeviceCapability_str_colon)

section \<open>Lookups after a run of registrations\<close>

lemma mappings_register:
  "mappings (register m r) = map_set (mappings r) (makeKey (platform m) (platformCapability m)) m"
  by (simp add: register_def Let_def)

lemma reverseMappings_register:
  "reverseMappings (register m r) =
     map_set (reverseMappings r) (makeKey (platform m) (DeviceCapability_str (unifiedCapability m)))
       (platformCapability m)"
  by (simp add: register_def Let_def)

lemma getUnifiedCapability_register:
  "getUnifiedCapability (register m r) p n =
     (if platform m = p \<and> platformCapability m = n then Some (unifiedCapability m)
      else getUnifiedCapability r p n)"
  by (simp add: getUnifiedCapability_def mappings_register map_get_def map_set_def
      update_conv' makeKey_eq_iff)

lemma getMapping_register:
  "getMapping (register m r) p n =
     (if platform m = p \<and> platformCapability m = n then Some m else getMapping r p n)"
  by (simp add: getMapping_def mappings_register map_get_def map_set_def update_conv' makeKey_eq_iff)

lemma getPlatformCapability_register:
  "getPlatformCapability (register m r) p c =
     (if platform m = p \<and> unifiedCapability m = c then Some (platformCapability m)
      else getPlatformCapability r p c)"
  by (simp add: getPlatformCapability_def reverseMappings_register map_get_def map_set_def
      update_conv' makeKey_eq_iff DeviceCapability_str_eq_iff)

lemma isPlatformSupported_iff:
  "isPlatformSupported r p c \<longleftrightarrow> getPlatformCapability r p c \<noteq> None"
  by (simp add: isPlatformSupported_def getPlatformCapability_def map_has_def map_get_def)

lemma getUnifiedCapability_getMapping:
  "getUnifiedCapability r p n = map_option unifiedCapability (getMapping r p n)"
  by (simp add: getUnifiedCapability_def getMapping_def split: option.splits)

lemma most_recent_Nil: "most_recent P [] = None"
  by (simp add: most_recent_def)

lemma most_recent_Cons:
  "most_recent P (x # xs) = (case most_recent P xs of Some y \<Rightarrow> Some y | None \<Rightarrow> if P x then Some x else None)"
  by (simp add: most_recent_def split: list.splits)

lemma getMapping_register_all:
  "getMapping (register_all ms r) p n =
     (case most_recent (\<lambda>m. platform m = p \<and> platformCapability m = n) ms of
        Some m \<Rightarrow> Some m
      | None \<Rightarrow> getMapping r p n)"
  by (induction ms arbitrary: r)
     (auto simp: most_recent_Nil most_recent_Cons getMapping_register split: option.splits)

lemma getPlatformCapability_register_all:
  "getPlatformCapability (register_all ms r) p c =
     (case most_recent (\<lambda>m. platform m = p \<and> unifiedCapability m = c) ms of
        Some m \<Rightarrow> Some (platformCapability m)
      | None \<Rightarrow> getPlatformCapability r p c)"
  by (induction ms arbitrary: r)
     (auto simp: most_recent_Nil most_recent_Cons getPlatformCapability_register split: option.splits)

section \<open>The enumeration loops\<close>

lemma getSupportedCapabilities_loop_eq:
  "getSupportedCapabilities_loop p al acc =
     acc @ map (\<lambda>e. unifiedCapability (snd e)) (filter (\<lambda>e. startsWith (fst e) (Platform_str p @ '':'')) al)"
  by (induction al arbitrary: acc) auto

lemma getPlatformCapabilities_loop_eq:
  "getPlatformCapabilities_loop p al acc =
     acc @ map (\<lambda>e. platformCapability (snd e)) (filter (\<lambda>e. startsWith (fst e) (Platform_str p @ '':'')) al)"
  by (induction al arbitrary: acc) auto

lemma set_update_subset: "set (AList.update k v al) \<subseteq> insert (k, v) (set al)"
  by (induction al) auto

lemma keyed_Nil: "keyed []"
  by (simp add: keyed_def)

lemma keyed_register: "keyed (mappings r) \<Longrightarrow> keyed (mappings (register m r))"
  unfolding keyed_def mappings_register map_set_def
  using set_update_subset [of "makeKey (platform m) (platformCapability m)" m "mappings r"]
  by (auto simp: distinct_update)

lemma keyed_register_all: "keyed (mappings r) \<Longrightarrow> keyed (mappings (register_all ms r))"
  by (induction ms arbitrary: r) (auto simp: keyed_register)

lemma keyed_reachable: "keyed (mappings (register_all ms (clear r)))"
  by (rule keyed_register_all) (simp add: clear_def keyed_Nil)

lemma keyed_filter:
  assumes "keyed al"
  shows "filter (\<lambda>e. startsWith (fst e) (Platform_str p @ '':'')) al = entries_of p al"
  unfolding entries_of_def
proof (rule filter_cong [OF refl])
  fix e assume "e \<in> set al"
  with assms have "fst e = makeKey (platform (snd e)) (platformCapability (snd e))"
    by (simp add: keyed_def)
  then show "startsWith (fst e) (Platform_str p @ '':'') = (platform (snd e) = p)"
    by (auto simp: startsWith_makeKey)
qed

lemma getSupportedCapabilities_keyed:
  "keyed (mappings r) \<Longrightarrow>
     getSupportedCapabilities r p = map (\<lambda>e. unifiedCapability (snd e)) (entries_of p (mappings r))"
  by (simp add: getSupportedCapabilities_def getSupportedCapabilities_loop_eq keyed_filter)

lemma getPlatformCapabilities_keyed:
  "keyed (mappings r) \<Longrightarrow>
     getPlatformCapabilities r p = map (\<lambda>e. platformCapability (snd e)) (entries_of p (mappings r))"
  by (simp add: getPlatformCapabilities_def getPlatformCapabilities_loop_eq keyed_filter)

lemma entries_of_inj:
  assumes "keyed al" "e1 \<in> set (entries_of p al)" "e2 \<in> set (entries_of p al)"
    "platformCapability (snd e1) = platformCapability (snd e2)"
  shows "e1 = e2"
proof -
  from assms have in1: "e1 \<in> set al" and in2: "e2 \<in> set al"
    and p1: "platform (snd e1) = p" and p2: "platform (snd e2) = p"
    by (auto simp: entries_of_def)
  with assms have "fst e1 = fst e2"
    by (simp add: keyed_def)
  moreover from assms have "distinct (map fst al)"
    by (simp add: keyed_def)
  ultimately show "e1 = e2"
    using in1 in2 by (metis eq_key_imp_eq_value prod.collapse)
qed

lemma distinct_entries_of: "keyed al \<Longrightarrow> distinct (entries_of p al)"
  by (auto simp: keyed_def entries_of_def dest: distinct_map [THEN iffD1])

lemma distinct_getPlatformCapabilities:
  assumes "keyed (mappings r)"
  shows "distinct (getPlatformCapabilities r p)"
  unfolding getPlatformCapabilities_keyed [OF assms] distinct_map
  using assms by (auto simp: distinct_entries_of inj_on_def dest: entries_of_inj)

lemma getUnifiedCapability_entry:
  assumes "keyed (mappings r)" "e \<in> set (entries_of p (mappings r))"
  shows "getUnifiedCapability r p (platformCapability (snd e)) = Some (unifiedCapability (snd e))"
proof -
  from assms have "e \<in> set (mappings r)" "platform (snd e) = p"
    "fst e = makeKey (platform (snd e)) (platformCapability (snd e))" "distinct (map fst (mappings r))"
    by (auto simp: entries_of_def keyed_def)
  then have "map_of (mappings r) (makeKey p (platformCapability (snd e))) = Some (snd e)"
    by (metis map_of_eq_Some_iff prod.collapse)
  then show ?thesis
    by (simp add: getUnifiedCapability_def map_get_def)
qed

lemma getPlatformCapabilities_member:
  assumes "keyed (mappings r)" "getMapping r p n = Some m"
  shows "n \<in> set (getPlatformCapabilities r p)"
proof -
  from assms(2) have "map_of (mappings r) (makeKey p n) = Some m"
    by (simp add: getMapping_def map_get_def)
  then have e: "(makeKey p n, m) \<in> set (mappings r)"
    by (rule map_of_SomeD)
  with assms(1) have "makeKey p n = makeKey (platform m) (platformCapability m)"
    by (auto simp: keyed_def)
  then have "platform m = p" "platformCapability m = n"
    by (simp_all add: makeKey_eq_iff)
  with e have "(makeKey p n, m) \<in> set (entries_of p (mappings r))"
    by (simp add: entries_of_def)
  then have "platformCapability (snd (makeKey p n, m)) \<in>
               (\<lambda>e. platformCapability (snd e)) ` set (entries_of p (mappings r))"
    by (rule imageI)
  then show ?thesis
    using \<open>platformCapability m = n\<close> by (simp add: getPlatformCapabilities_keyed [OF assms(1)])
qed

lemma distinct_getSupportedCapabilities_iff:
  assumes "keyed (mappings r)"
  shows "distinct (getSupportedCapabilities r p) \<longleftrightarrow>
           inj_on (getUnifiedCapability r p) (set (getPlatformCapabilities r p))"
proof -
  let ?es = "entries_of p (mappings r)"
  let ?u = "\<lambda>e. unifiedCapability (snd e)"
  let ?n = "\<lambda>e. platformCapability (snd e)"
  have inj_n: "inj_on ?n (set ?es)"
    using assms by (auto simp: inj_on_def dest: entries_of_inj)
  have "distinct (getSupportedCapabilities r p) \<longleftrightarrow> inj_on ?u (set ?es)"
    by (simp add: getSupportedCapabilities_keyed [OF assms] distinct_map distinct_entries_of [OF assms])
  also have "\<dots> \<longleftrightarrow> inj_on (\<lambda>e. getUnifiedCapability r p (?n e)) (set ?es)"
    by (simp add: inj_on_def getUnifiedCapability_entry [OF assms])
  also have "\<dots> \<longleftrightarrow> inj_on (getUnifiedCapability r p) (?n ` set ?es)"
    using comp_inj_on_iff [OF inj_n, of "getUnifiedCapability r p"] by (simp add: comp_def)
  finally show ?thesis
    by (simp add: getPlatformCapabilities_keyed [OF assms])
qed

lemma filter_update_startsWith:
  "filter (\<lambda>e. startsWith (fst e) pre) (AList.update k v al) =
     (if startsWith k pre then AList.update k v (filter (\<lambda>e. startsWith (fst e) pre) al)
      else filter (\<lambda>e. startsWith (fst e) pre) al)"
  by (induction al) auto

lemma platform_entries_register:
  "platform_entries p (register m r) =
     (if platform m = p
      then map_set (platform_entries p r) (makeKey (platform m) (platformCapability m)) m
      else platform_entries p r)"
  by (simp add: platform_entries_def mappings_register map_set_def filter_update_startsWith
      startsWith_makeKey)

lemma platform_entries_new: "platform_entries p CapabilityRegistry_new = []"
  by (simp add: platform_entries_def CapabilityRegistry_new_def)

lemma platform_entries_cong:
  "platform_entries p r = platform_entries p r' \<Longrightarrow>
     platform_entries p (register_all ms r) = platform_entries p (register_all ms r')"
  by (induction ms arbitrary: r r') (simp_all add: platform_entries_register)

lemma platform_entries_restrict:
  "platform_entries p (register_all ms r) =
     platform_entries p (register_all (filter (\<lambda>m. platform m = p) ms) r)"
proof (induction ms arbitrary: r)
  case Nil
  show ?case by simp
next
  case (Cons m ms)
  show ?case
  proof (cases "platform m = p")
    case True
    then show ?thesis by (simp add: Cons.IH [of "register m r"])
  next
    case False
    then have "platform_entries p (register m r) = platform_entries p r"
      by (simp add: platform_entries_register)
    then have "platform_entries p (register_all (filter (\<lambda>m. platform m = p) ms) (register m r))
               = platform_entries p (register_all (filter (\<lambda>m. platform m = p) ms) r)"
      by (rule platform_entries_cong)
    with False show ?thesis by (simp add: Cons.IH [of "register m r"])
  qed
qed

lemma getSupportedCapabilities_entries:
  "getSupportedCapabilities r p = map (\<lambda>e. unifiedCapability (snd e)) (platform_entries p r)"
  by (simp add: getSupportedCapabilities_def getSupportedCapabilities_loop_eq platform_entries_def)

lemma getSupportedCapabilities_restrict:
  "getSupportedCapabilities (register_all ms (clear r)) p =
     getSupportedCapabilities (register_all (filter (\<lambda>m. platform m = p) ms) CapabilityRegistry_new) p"
proof -
  have "platform_entries p (clear r) = platform_entries p CapabilityRegistry_new"
    by (simp add: platform_entries_def clear_def CapabilityRegistry_new_def)
  then have "platform_entries p (register_all ms (clear r)) = platform_entries p (register_all ms CapabilityRegistry_new)"
    by (rule platform_entries_cong)
  then show ?thesis
    by (simp add: getSupportedCapabilities_entries platform_entries_restrict [of p ms CapabilityRegistry_new])
qed

lemma lutron_supported:
  "getSupportedCapabilities (initializeCapabilityMappings (clear r)) LUTRON =
     [DIMMER, SHADE, SHADE, OCCUPANCY_SENSOR, FAN]"
  unfolding initializeCapabilityMappings_def getSupportedCapabilities_restrict
  by (simp add: standard_mappings_def getSupportedCapabilities_entries platform_entries_register
      platform_entries_new map_set_def makeKey_eq_iff)

lemma keys_register_all:
  "fst ` set (mappings (register_all ms r)) =
     fst ` set (mappings r) \<union> (\<lambda>m. makeKey (platform m) (platformCapability m)) ` set ms"
  by (induction ms arbitrary: r) (auto simp: mappings_register map_set_def dom_update)

lemma getMappingCount_register_all:
  "getMappingCount (register_all ms (clear r)) =
     length (remdups (map (\<lambda>m. (platform m, platformCapability m)) ms))"
proof -
  let ?R = "register_all ms (clear r)"
  have "distinct (map fst (mappings ?R))"
    using keyed_reachable [of ms r] by (simp add: keyed_def)
  then have "length (mappings ?R) = card (fst ` set (mappings ?R))"
    using distinct_card [of "map fst (mappings ?R)"] by simp
  also have "fst ` set (mappings ?R) = (\<lambda>m. makeKey (platform m) (platformCapability m)) ` set ms"
    by (simp add: keys_register_all clear_def)
  also have "\<dots> = (\<lambda>k. makeKey (fst k) (snd k)) ` set (map (\<lambda>m. (platform m, platformCapability m)) ms)"
    by (simp add: image_image)
  also have "card \<dots> = card (set (map (\<lambda>m. (platform m, platformCapability m)) ms))"
    by (rule card_image) (auto simp: inj_on_def makeKey_eq_iff prod_eq_iff)
  finally show ?thesis
    by (simp add: getMappingCount_def map_size_def length_remdups_card_conv)
qed

lemma standard_getMappingCount:
  "getMappingCount (initializeCapabilityMappings (clear r)) = 59"
  unfolding initializeCapabilityMappings_def getMappingCount_register_all
  by (simp add: standard_mappings_def)

section \<open>Rounding to binary64\<close>

lemma pow2_powi: "pow2 e = 2 powi e"
  by (simp add: pow2_def power_int_def inverse_eq_divide power_one_over)

lemma pow2_pos: "0 < pow2 e"
  by (simp add: pow2_powi)

lemma pow2_diff: "pow2 (a - b) = pow2 a / pow2 b"
  by (simp add: pow2_powi power_int_diff)

lemma pow2_less: "a < b \<Longrightarrow> pow2 a < pow2 b"
  by (simp add: pow2_powi power_int_strict_increasing)

lemma pow2_less_cancel:
  assumes "pow2 a < pow2 b"
  shows "a < b"
proof (rule ccontr)
  assume "\<not> a < b"
  then have "pow2 b \<le> pow2 a"
    by (simp add: pow2_powi power_int_increasing)
  with assms show False by simp
qed

lemma bitlen_pos: "0 < a \<Longrightarrow> 1 \<le> bitlen a"
  using bitlen_eq_zero_iff [of a] bitlen_nonneg [of a] by linarith

lemma bitlen_bounds_rat:
  assumes "0 < a"
  shows "pow2 (bitlen a - 1) \<le> of_int a" and "of_int a < pow2 (bitlen a)"
proof -
  have "(of_int ((2::int) ^ nat (bitlen a - 1)) :: rat) \<le> of_int a"
    using bitlen_bounds [OF assms] by (simp only: of_int_le_iff)
  then show "pow2 (bitlen a - 1) \<le> of_int a"
    using bitlen_pos [OF assms] by (simp add: pow2_def)
  have "(of_int a :: rat) < of_int ((2::int) ^ nat (bitlen a))"
    using bitlen_bounds [OF assms] by (simp only: of_int_less_iff)
  then show "of_int a < pow2 (bitlen a)"
    using bitlen_pos [OF assms] by (simp add: pow2_def)
qed

lemma floor_log2_bounds:
  assumes "0 < x"
  shows "pow2 (floor_log2 x) \<le> x" and "x < pow2 (floor_log2 x + 1)"
proof -
  obtain a b where q: "quotient_of x = (a, b)"
    by (cases "quotient_of x")
  have b: "0 < b" and x: "x = of_int a / of_int b"
    using quotient_of_denom_pos [OF q] quotient_of_div [OF q] by simp_all
  have a: "0 < a"
    using assms b by (simp add: x zero_less_divide_iff)
  define e where "e = bitlen a - bitlen b"
  have "x < pow2 (bitlen a) / pow2 (bitlen b - 1)"
    unfolding x using a b bitlen_bounds_rat [of a] bitlen_bounds_rat [of b]
    by (intro frac_less) (simp_all add: pow2_pos)
  then have up: "x < pow2 (e + 1)"
    by (simp add: e_def flip: pow2_diff) (simp add: algebra_simps)
  have "pow2 (bitlen a - 1) / pow2 (bitlen b) < x"
    unfolding x using a b bitlen_bounds_rat [of a] bitlen_bounds_rat [of b]
    by (intro frac_less2) (simp_all add: pow2_pos)
  then have lo: "pow2 (e - 1) < x"
    by (simp add: e_def flip: pow2_diff) (simp add: algebra_simps)
  have f: "floor_log2 x = (if pow2 e \<le> x then e else e - 1)"
    by (simp add: floor_log2_def q e_def Let_def)
  show "pow2 (floor_log2 x) \<le> x"
    using lo by (simp add: f)
  show "x < pow2 (floor_log2 x + 1)"
    using up by (simp add: f)
qed

lemma floor_log2_eqI:
  assumes "0 < x" "pow2 e \<le> x" "x < pow2 (e + 1)"
  shows "floor_log2 x = e"
proof -
  have "pow2 (floor_log2 x) < pow2 (e + 1)"
    using floor_log2_bounds(1) [OF assms(1)] assms(3) by simp
  then have "floor_log2 x < e + 1"
    by (rule pow2_less_cancel)
  moreover have "pow2 e < pow2 (floor_log2 x + 1)"
    using floor_log2_bounds(2) [OF assms(1)] assms(2) by simp
  then have "e < floor_log2 x + 1"
    by (rule pow2_less_cancel)
  ultimately show ?thesis by simp
qed

lemma round_half_even_eqI:
  assumes "of_int m - 1 / 2 < y" "y < of_int m + 1 / 2"
  shows "round_half_even y = m"
proof (cases "of_int m \<le> y")
  case True
  then have "\<lfloor>y\<rfloor> = m"
    using assms by (intro floor_unique) simp_all
  then show ?thesis
    using assms by (simp add: round_half_even_def Let_def)
next
  case False
  then have "\<lfloor>y\<rfloor> = m - 1"
    using assms by (intro floor_unique) simp_all
  then show ?thesis
    using assms by (simp add: round_half_even_def Let_def)
qed

lemma round_double_eqI:
  assumes "0 < x" "pow2 e \<le> x" "x < pow2 (e + 1)" "- 1022 \<le> e"
    and "of_int m - 1 / 2 < x / pow2 (e - 52)" "x / pow2 (e - 52) < of_int m + 1 / 2"
    and "0 \<le> m" "of_int m * pow2 (e - 52) < pow2 1024"
  shows "round_double x = Finite (of_int m * pow2 (e - 52))"
proof -
  have fl: "floor_log2 x = e"
    using assms(1-3) by (rule floor_log2_eqI)
  have m: "max e (- 1022) = e"
    using assms(4) by simp
  have r: "round_half_even (x / pow2 (e - 52)) = m"
    using assms(5,6) by (rule round_half_even_eqI)
  have "0 \<le> of_int m * pow2 (e - 52)"
    using assms(7) pow2_pos [of "e - 52"] by simp
  then have "\<not> pow2 1024 \<le> \<bar>of_int m * pow2 (e - 52)\<bar>"
    using assms(8) by simp
  then show ?thesis
    using assms(1) by (simp add: round_double_def Let_def fl m r)
qed

lemma round_double_int:
  assumes "0 \<le> n" "n < 2 ^ 53"
  shows "round_double (of_int n) = Finite (of_int n)"
proof (cases "n = 0")
  case True
  then show ?thesis by (simp add: round_double_def)
next
  case False
  with assms have pos: "0 < n" by simp
  define e where "e = bitlen n - 1"
  have e0: "0 \<le> e"
    using bitlen_pos [OF pos] by (simp add: e_def)
  have e52: "e \<le> 52"
    using assms(2) bitlen_le_iff_power [of n 53] by (simp add: e_def)
  define k where "k = nat (52 - e)"
  have q: "pow2 (e - 52) = 1 / 2 ^ k"
    using e52 by (cases "e = 52") (simp_all add: pow2_def k_def)
  have y: "(of_int (n * 2 ^ k) :: rat) * pow2 (e - 52) = of_int n"
    by (simp add: q)
  have "(of_int n :: rat) < of_int (2 ^ 53)"
    using assms(2) by (simp only: of_int_less_iff)
  also have "\<dots> < pow2 1024"
    by (simp add: pow2_def)
  finally have small: "(of_int n :: rat) < pow2 1024" .
  have "round_double (of_int n) = Finite (of_int (n * 2 ^ k) * pow2 (e - 52))"
  proof (rule round_double_eqI)
    show "0 < (of_int n :: rat)" using pos by simp
    show "pow2 e \<le> of_int n" using bitlen_bounds_rat(1) [OF pos] by (simp add: e_def)
    show "of_int n < pow2 (e + 1)" using bitlen_bounds_rat(2) [OF pos] by (simp add: e_def)
    show "- 1022 \<le> e" using e0 by simp
    show "of_int (n * 2 ^ k) - 1 / 2 < (of_int n :: rat) / pow2 (e - 52)" by (simp add: q)
    show "(of_int n :: rat) / pow2 (e - 52) < of_int (n * 2 ^ k) + 1 / 2" by (simp add: q)
    show "0 \<le> n * 2 ^ k" using pos by simp
    show "(of_int (n * 2 ^ k) :: rat) * pow2 (e - 52) < pow2 1024" using small by (simp only: y)
  qed
  then show ?thesis by (simp only: y)
qed

lemma lit_10_eq: "lit_10 = Finite 10"
  using round_double_int [of 10] by (simp add: lit_10_def)

lemma lit_3_6_eq: "lit_3_6 = Finite (8106479329266893 / 2251799813685248)"
proof -
  have "round_double (36 / 10) = Finite (of_int 8106479329266893 * pow2 (1 - 52))"
    by (rule round_double_eqI) (simp_all add: pow2_def)
  then show ?thesis
    by (simp add: lit_3_6_def pow2_def)
qed

lemma Math_round_int: "Math_round (Finite (of_int k)) = Finite (of_int k)"
proof -
  have "\<lfloor>(of_int k :: rat) + 1 / 2\<rfloor> = k"
    by (intro floor_unique) simp_all
  then show ?thesis by simp
qed

lemma Math_round_eqI:
  assumes "of_int k - 1 / 2 \<le> x" "x < of_int k + 1 / 2"
  shows "Math_round (Finite x) = Finite (of_int k)"
proof -
  have "\<lfloor>x + 1 / 2\<rfloor> = k"
    using assms by (intro floor_unique) simp_all
  then show ?thesis by simp
qed

lemma times_50_lit_3_6: "js_times (Finite 50) lit_3_6 = Finite 180"
proof -
  have "round_double (50 * (8106479329266893 / 2251799813685248))
          = Finite (of_int 6333186975989760 * pow2 (7 - 52))"
    by (rule round_double_eqI) (simp_all add: pow2_def)
  then show ?thesis
    by (simp add: lit_3_6_eq pow2_def)
qed

lemma divide_270_lit_3_6: "js_divide (Finite 270) lit_3_6 = Finite 75"
proof -
  have "round_double (270 / (8106479329266893 / 2251799813685248))
          = Finite (of_int 5277655813324800 * pow2 (6 - 52))"
    by (rule round_double_eqI) (simp_all add: pow2_def)
  then show ?thesis
    by (simp add: lit_3_6_eq pow2_def)
qed

lemma divide_100_lit_3_6:
  "js_divide (Finite 100) lit_3_6 = Finite (3909374676536889 / 140737488355328)"
proof -
  have "round_double (100 / (8106479329266893 / 2251799813685248))
          = Finite (of_int 7818749353073778 * pow2 (4 - 52))"
    by (rule round_double_eqI) (simp_all add: pow2_def)
  then show ?thesis
    by (simp add: lit_3_6_eq pow2_def)
qed

lemma times_28_lit_3_6:
  "js_times (Finite 28) lit_3_6 = Finite (7093169413108531 / 70368744177664)"
proof -
  have "round_double (28 * (8106479329266893 / 2251799813685248))
          = Finite (of_int 7093169413108531 * pow2 (6 - 52))"
    by (rule round_double_eqI) (simp_all add: pow2_def)
  then show ?thesis
    by (simp add: lit_3_6_eq pow2_def)
qed

lemma times_75_lit_3_6: "js_times (Finite 75) lit_3_6 = Finite 270"
proof -
  have "round_double (75 * (8106479329266893 / 2251799813685248))
          = Finite (of_int 4749890231992320 * pow2 (8 - 52))"
    by (rule round_double_eqI) (simp_all add: pow2_def)
  then show ?thesis
    by (simp add: lit_3_6_eq pow2_def)
qed

lemma hue_rounds:
  "Math_round (Finite (3909374676536889 / 140737488355328)) = Finite 28"
  "Math_round (Finite (7093169413108531 / 70368744177664)) = Finite 101"
  "Math_round (Finite 180) = Finite 180"
  "Math_round (Finite 75) = Finite 75"
  "Math_round (Finite 270) = Finite 270"
  using Math_round_eqI [of 28 "3909374676536889 / 140737488355328"]
    Math_round_eqI [of 101 "7093169413108531 / 70368744177664"]
    Math_round_int [of 180] Math_round_int [of 75] Math_round_int [of 270]
  by simp_all

lemma tuya_level_exact:
  assumes "0 \<le> v" "v \<le> 100"
  shows "Math_round (js_times (Finite (of_int v)) lit_10) = Finite (of_int (v * 10))"
    and "Math_round (js_divide (Finite (of_int (v * 10))) lit_10) = Finite (of_int v)"
proof -
  have a: "round_double (of_int (v * 10)) = Finite (of_int (v * 10))"
    using assms by (intro round_double_int) simp_all
  have b: "round_double (of_int v) = Finite (of_int v)"
    using assms by (intro round_double_int) simp_all
  have "js_times (Finite (of_int v)) lit_10 = Finite (of_int (v * 10))"
    using a by (simp add: lit_10_eq)
  then show "Math_round (js_times (Finite (of_int v)) lit_10) = Finite (of_int (v * 10))"
    by (simp only: Math_round_int)
  have "js_divide (Finite (of_int (v * 10))) lit_10 = Finite (of_int v)"
    using b by (simp add: lit_10_eq)
  then show "Math_round (js_divide (Finite (of_int (v * 10))) lit_10) = Finite (of_int v)"
    by (simp only: Math_round_int)
qed

lemma level_values:
  "Math_round (js_divide (Finite 750) lit_10) = Finite 75"
  "Math_round (js_times (Finite 75) lit_10) = Finite 750"
  "Math_round (js_times (Finite 50) lit_10) = Finite 500"
  "Math_round (js_divide (Finite 500) lit_10) = Finite 50"
  using tuya_level_exact [of 75] tuya_level_exact [of 50] by simp_all

section \<open>Lookups in the conversion registry\<close>

lemma conversions_register:
  "conversions (ValueConversionRegistry_register cv r) =
     map_set (conversions r) (ValueConversionRegistry_makeKey (conv_platform cv) (capability cv) (attribute cv)) cv"
  by (simp add: ValueConversionRegistry_register_def Let_def)

lemma getConversion_register:
  "getConversion (ValueConversionRegistry_register cv r) p c a =
     (if conv_platform cv = p \<and> capability cv = c \<and> attribute cv = a then Some cv
      else getConversion r p c a)"
  by (simp add: getConversion_def conversions_register map_get_def map_set_def update_conv'
      ValueConversionRegistry_makeKey_eq_iff)

lemma getConversion_clear: "getConversion (ValueConversionRegistry_clear r) p c a = None"
  by (simp add: getConversion_def ValueConversionRegistry_clear_def map_get_def)

lemma toPlatform_getConversion:
  "ValueConversionRegistry_toPlatform r p c a v =
     (case getConversion r p c a of None \<Rightarrow> Inr v | Some cv \<Rightarrow> toPlatform cv v)"
  by (simp add: ValueConversionRegistry_toPlatform_def getConversion_def)

lemma fromPlatform_getConversion:
  "ValueConversionRegistry_fromPlatform r p c a v =
     (case getConversion r p c a of None \<Rightarrow> Inr v | Some cv \<Rightarrow> fromPlatform cv v)"
  by (simp add: ValueConversionRegistry_fromPlatform_def getConversion_def)

lemma hasConversion_getConversion: "hasConversion r p c a \<longleftrightarrow> getConversion r p c a \<noteq> None"
  by (simp add: hasConversion_def getConversion_def map_has_def map_get_def)

lemma standard_getConversion:
  "getConversion (initializeValueConversions h (ValueConversionRegistry_clear r)) p c a =
     (if p = TUYA \<and> c = DIMMER \<and> a = ''level'' then Some (standard_conversions h ! 0)
      else if p = SMARTTHINGS \<and> c = COLOR \<and> a = ''hue'' then Some (standard_conversions h ! 1)
      else if p = TUYA \<and> c = COLOR \<and> a = ''color'' then Some (standard_conversions h ! 2)
      else if p = LUTRON \<and> c = DIMMER \<and> a = ''level'' then Some (standard_conversions h ! 3)
      else None)"
  by (simp add: initializeValueConversions_def standard_conversions_def getConversion_register
      getConversion_clear)

lemma standard_count:
  "getConversionCount (initializeValueConversions h (ValueConversionRegistry_clear r)) = 4"
  by (simp add: initializeValueConversions_def standard_conversions_def getConversionCount_def
      conversions_register ValueConversionRegistry_clear_def map_size_def map_set_def
      ValueConversionRegistry_makeKey_def)

lemma getConversion_register_all:
  "getConversion (ValueConversionRegistry_register_all calls r) p c a =
     (case most_recent (\<lambda>cv. conv_platform cv = p \<and> capability cv = c \<and> attribute cv = a) calls of
        Some cv \<Rightarrow> Some cv
      | None \<Rightarrow> getConversion r p c a)"
  by (induction calls arbitrary: r)
     (auto simp: most_recent_Nil most_recent_Cons getConversion_register split: option.splits)

text \<open>The hue round trip at the degrees that divide evenly, the multiples of 18.\<close>

lemma hue_trip_0:
  "Math_round (js_times (Math_round (js_divide (Finite 0) lit_3_6)) lit_3_6) = Finite 0"
proof -
  have d: "js_divide (Finite 0) lit_3_6 = Finite 0"
    by (simp add: lit_3_6_eq round_double_def)
  have r: "Math_round (Finite 0) = Finite 0"
    using Math_round_int [of 0] by simp
  have t: "js_times (Finite 0) lit_3_6 = Finite 0"
    by (simp add: lit_3_6_eq round_double_def)
  show ?thesis
    by (simp only: d r t)
qed

lemma hue_trip_18:
  "Math_round (js_times (Math_round (js_divide (Finite 18) lit_3_6)) lit_3_6) = Finite 18"
proof -
  have "round_double (18 / (8106479329266893 / 2251799813685248)) = Finite (of_int 5629499534213120 * pow2 (2 - 52))"
    by (rule round_double_eqI) (simp_all add: pow2_def)
  then have d: "js_divide (Finite 18) lit_3_6 = Finite 5"
    by (simp add: lit_3_6_eq pow2_def)
  have r1: "Math_round (Finite 5) = Finite 5"
    using Math_round_eqI [of 5 "5"] by simp
  have "round_double (5 * (8106479329266893 / 2251799813685248)) = Finite (of_int 5066549580791808 * pow2 (4 - 52))"
    by (rule round_double_eqI) (simp_all add: pow2_def)
  then have t: "js_times (Finite 5) lit_3_6 = Finite 18"
    by (simp add: lit_3_6_eq pow2_def)
  have r2: "Math_round (Finite 18) = Finite 18"
    using Math_round_eqI [of 18 "18"] by simp
  show ?thesis
    by (simp only: d r1 t r2)
qed

lemma hue_trip_36:
  "Math_round (js_times (Math_round (js_divide (Finite 36) lit_3_6)) lit_3_6) = Finite 36"
proof -
  have "round_double (36 / (8106479329266893 / 2251799813685248)) = Finite (of_int 5629499534213120 * pow2 (3 - 52))"
    by (rule round_double_eqI) (simp_all add: pow2_def)
  then have d: "js_divide (Finite 36) lit_3_6 = Finite 10"
    by (simp add: lit_3_6_eq pow2_def)
  have r1: "Math_round (Finite 10) = Finite 10"
    using Math_round_eqI [of 10 "10"] by simp
  have "round_double (10 * (8106479329266893 / 2251799813685248)) = Finite (of_int 5066549580791808 * pow2 (5 - 52))"
    by (rule round_double_eqI) (simp_all add: pow2_def)
  then have t: "js_times (Finite 10) lit_3_6 = Finite 36"
    by (simp add: lit_3_6_eq pow2_def)
  have r2: "Math_round (Finite 36) = Finite 36"
    using Math_round_eqI [of 36 "36"] by simp
  show ?thesis
    by (simp only: d r1 t r2)
qed

lemma hue_trip_54:
  "Math_round (js_times (Math_round (js_divide (Finite 54) lit_3_6)) lit_3_6) = Finite 54"
proof -
  have "round_double (54 / (8106479329266893 / 2251799813685248)) = Finite (of_int 8444249301319680 * pow2 (3 - 52))"
    by (rule round_double_eqI) (simp_all add: pow2_def)
  then have d: "js_divide (Finite 54) lit_3_6 = Finite 15"
    by (simp add: lit_3_6_eq pow2_def)
  have r1: "Math_round (Finite 15) = Finite 15"
    using Math_round_eqI [of 15 "15"] by simp
  have "round_double (15 * (8106479329266893 / 2251799813685248)) = Finite (of_int 7599824371187712 * pow2 (5 - 52))"
    by (rule round_double_eqI) (simp_all add: pow2_def)
  then have t: "js_times (Finite 15) lit_3_6 = Finite 54"
    by (simp add: lit_3_6_eq pow2_def)
  have r2: "Math_round (Finite 54) = Finite 54"
    using Math_round_eqI [of 54 "54"] by simp
  show ?thesis
    by (simp only: d r1 t r2)
qed

lemma hue_trip_72:
  "Math_round (js_times (Math_round (js_divide (Finite 72) lit_3_6)) lit_3_6) = Finite 72"
proof -
  have "round_double (72 / (8106479329266893 / 2251799813685248)) = Finite (of_int 5629499534213120 * pow2 (4 - 52))"
    by (rule round_double_eqI) (simp_all add: pow2_def)
  then have d: "js_divide (Finite 72) lit_3_6 = Finite 20"
    by (simp add: lit_3_6_eq pow2_def)
  have r1: "Math_round (Finite 20) = Finite 20"
    using Math_round_eqI [of 20 "20"] by simp
  have "round_double (20 * (8106479329266893 / 2251799813685248)) = Finite (of_int 5066549580791808 * pow2 (6 - 52))"
    by (rule round_double_eqI) (simp_all add: pow2_def)
  then have t: "js_times (Finite 20) lit_3_6 = Finite 72"
    by (simp add: lit_3_6_eq pow2_def)
  have r2: "Math_round (Finite 72) = Finite 72"
    using Math_round_eqI [of 72 "72"] by simp
  show ?thesis
    by (simp only: d r1 t r2)
qed

lemma hue_trip_90:
  "Math_round (js_times (Math_round (js_divide (Finite 90) lit_3_6)) lit_3_6) = Finite 90"
proof -
  have "round_double (90 / (8106479329266893 / 2251799813685248)) = Finite (of_int 7036874417766400 * pow2 (4 - 52))"
    by (rule round_double_eqI) (simp_all add: pow2_def)
  then have d: "js_divide (Finite 90) lit_3_6 = Finite 25"
    by (simp add: lit_3_6_eq pow2_def)
  have r1: "Math_round (Finite 25) = Finite 25"
    using Math_round_eqI [of 25 "25"] by simp
  have "round_double (25 * (8106479329266893 / 2251799813685248)) = Finite (of_int 6333186975989760 * pow2 (6 - 52))"
    by (rule round_double_eqI) (simp_all add: pow2_def)
  then have t: "js_times (Finite 25) lit_3_6 = Finite 90"
    by (simp add: lit_3_6_eq pow2_def)
  have r2: "Math_round (Finite 90) = Finite 90"
    using Math_round_eqI [of 90 "90"] by simp
  show ?thesis
    by (simp only: d r1 t r2)
qed

lemma hue_trip_108:
  "Math_round (js_times (Math_round (js_divide (Finite 108) lit_3_6)) lit_3_6) = Finite 108"
proof -
  have "round_double (108 / (8106479329266893 / 2251799813685248)) = Finite (of_int 8444249301319680 * pow2 (4 - 52))"
    by (rule round_double_eqI) (simp_all add: pow2_def)
  then have d: "js_divide (Finite 108) lit_3_6 = Finite 30"
    by (simp add: lit_3_6_eq pow2_def)
  have r1: "Math_round (Finite 30) = Finite 30"
    using Math_round_eqI [of 30 "30"] by simp
  have "round_double (30 * (8106479329266893 / 2251799813685248)) = Finite (of_int 7599824371187712 * pow2 (6 - 52))"
    by (rule round_double_eqI) (simp_all add: pow2_def)
  then have t: "js_times (Finite 30) lit_3_6 = Finite 108"
    by (simp add: lit_3_6_eq pow2_def)
  have r2: "Math_round (Finite 108) = Finite 108"
    using Math_round_eqI [of 108 "108"] by simp
  show ?thesis
    by (simp only: d r1 t r2)
qed

lemma hue_trip_126:
  "Math_round (js_times (Math_round (js_divide (Finite 126) lit_3_6)) lit_3_6) = Finite 126"
proof -
  have "round_double (126 / (8106479329266893 / 2251799813685248)) = Finite (of_int 4925812092436480 * pow2 (5 - 52))"
    by (rule round_double_eqI) (simp_all add: pow2_def)
  then have d: "js_divide (Finite 126) lit_3_6 = Finite 35"
    by (simp add: lit_3_6_eq pow2_def)
  have r1: "Math_round (Finite 35) = Finite 35"
    using Math_round_eqI [of 35 "35"] by simp
  have "round_double (35 * (8106479329266893 / 2251799813685248)) = Finite (of_int 8866461766385664 * pow2 (6 - 52))"
    by (rule round_double_eqI) (simp_all add: pow2_def)
  then have t: "js_times (Finite 35) lit_3_6 = Finite 126"
    by (simp add: lit_3_6_eq pow2_def)
  have r2: "Math_round (Finite 126) = Finite 126"
    using Math_round_eqI [of 126 "126"] by simp
  show ?thesis
    by (simp only: d r1 t r2)
qed

lemma hue_trip_144:
  "Math_round (js_times (Math_round (js_divide (Finite 144) lit_3_6)) lit_3_6) = Finite 144"
proof -
  have "round_double (144 / (8106479329266893 / 2251799813685248)) = Finite (of_int 5629499534213120 * pow2 (5 - 52))"
    by (rule round_double_eqI) (simp_all add: pow2_def)
  then have d: "js_divide (Finite 144) lit_3_6 = Finite 40"
    by (simp add: lit_3_6_eq pow2_def)
  have r1: "Math_round (Finite 40) = Finite 40"
    using Math_round_eqI [of 40 "40"] by simp
  have "round_double (40 * (8106479329266893 / 2251799813685248)) = Finite (of_int 5066549580791808 * pow2 (7 - 52))"
    by (rule round_double_eqI) (simp_all add: pow2_def)
  then have t: "js_times (Finite 40) lit_3_6 = Finite 144"
    by (simp add: lit_3_6_eq pow2_def)
  have r2: "Math_round (Finite 144) = Finite 144"
    using Math_round_eqI [of 144 "144"] by simp
  show ?thesis
    by (simp only: d r1 t r2)
qed

lemma hue_trip_162:
  "Math_round (js_times (Math_round (js_divide (Finite 162) lit_3_6)) lit_3_6) = Finite 162"
proof -
  have "round_double (162 / (8106479329266893 / 2251799813685248)) = Finite (of_int 6333186975989760 * pow2 (5 - 52))"
    by (rule round_double_eqI) (simp_all add: pow2_def)
  then have d: "js_divide (Finite 162) lit_3_6 = Finite 45"
    by (simp add: lit_3_6_eq pow2_def)
  have r1: "Math_round (Finite 45) = Finite 45"
    using Math_round_eqI [of 45 "45"] by simp
  have "round_double (45 * (8106479329266893 / 2251799813685248)) = Finite (of_int 5699868278390784 * pow2 (7 - 52))"
    by (rule round_double_eqI) (simp_all add: pow2_def)
  then have t: "js_times (Finite 45) lit_3_6 = Finite 162"
    by (simp add: lit_3_6_eq pow2_def)
  have r2: "Math_round (Finite 162) = Finite 162"
    using Math_round_eqI [of 162 "162"] by simp
  show ?thesis
    by (simp only: d r1 t r2)
qed

lemma hue_trip_180:
  "Math_round (js_times (Math_round (js_divide (Finite 180) lit_3_6)) lit_3_6) = Finite 180"
proof -
  have "round_double (180 / (8106479329266893 / 2251799813685248)) = Finite (of_int 7036874417766400 * pow2 (5 - 52))"
    by (rule round_double_eqI) (simp_all add: pow2_def)
  then have d: "js_divide (Finite 180) lit_3_6 = Finite 50"
    by (simp add: lit_3_6_eq pow2_def)
  have r1: "Math_round (Finite 50) = Finite 50"
    using Math_round_eqI [of 50 "50"] by simp
  have "round_double (50 * (8106479329266893 / 2251799813685248)) = Finite (of_int 6333186975989760 * pow2 (7 - 52))"
    by (rule round_double_eqI) (simp_all add: pow2_def)
  then have t: "js_times (Finite 50) lit_3_6 = Finite 180"
    by (simp add: lit_3_6_eq pow2_def)
  have r2: "Math_round (Finite 180) = Finite 180"
    using Math_round_eqI [of 180 "180"] by simp
  show ?thesis
    by (simp only: d r1 t r2)
qed

lemma hue_trip_198:
  "Math_round (js_times (Math_round (js_divide (Finite 198) lit_3_6)) lit_3_6) = Finite 198"
proof -
  have "round_double (198 / (8106479329266893 / 2251799813685248)) = Finite (of_int 7740561859543040 * pow2 (5 - 52))"
    by (rule round_double_eqI) (simp_all add: pow2_def)
  then have d: "js_divide (Finite 198) lit_3_6 = Finite 55"
    by (simp add: lit_3_6_eq pow2_def)
  have r1: "Math_round (Finite 55) = Finite 55"
    using Math_round_eqI [of 55 "55"] by simp
  have "round_double (55 * (8106479329266893 / 2251799813685248)) = Finite (of_int 6966505673588736 * pow2 (7 - 52))"
    by (rule round_double_eqI) (simp_all add: pow2_def)
  then have t: "js_times (Finite 55) lit_3_6 = Finite 198"
    by (simp add: lit_3_6_eq pow2_def)
  have r2: "Math_round (Finite 198) = Finite 198"
    using Math_round_eqI [of 198 "198"] by simp
  show ?thesis
    by (simp only: d r1 t r2)
qed

lemma hue_trip_216:
  "Math_round (js_times (Math_round (js_divide (Finite 216) lit_3_6)) lit_3_6) = Finite 216"
proof -
  have "round_double (216 / (8106479329266893 / 2251799813685248)) = Finite (of_int 8444249301319680 * pow2 (5 - 52))"
    by (rule round_double_eqI) (simp_all add: pow2_def)
  then have d: "js_divide (Finite 216) lit_3_6 = Finite 60"
    by (simp add: lit_3_6_eq pow2_def)
  have r1: "Math_round (Finite 60) = Finite 60"
    using Math_round_eqI [of 60 "60"] by simp
  have "round_double (60 * (8106479329266893 / 2251799813685248)) = Finite (of_int 7599824371187712 * pow2 (7 - 52))"
    by (rule round_double_eqI) (simp_all add: pow2_def)
  then have t: "js_times (Finite 60) lit_3_6 = Finite 216"
    by (simp add: lit_3_6_eq pow2_def)
  have r2: "Math_round (Finite 216) = Finite 216"
    using Math_round_eqI [of 216 "216"] by simp
  show ?thesis
    by (simp only: d r1 t r2)
qed

lemma hue_trip_234:
  "Math_round (js_times (Math_round (js_divide (Finite 234) lit_3_6)) lit_3_6) = Finite 234"
proof -
  have "round_double (234 / (8106479329266893 / 2251799813685248)) = Finite (of_int 4573968371548160 * pow2 (6 - 52))"
    by (rule round_double_eqI) (simp_all add: pow2_def)
  then have d: "js_divide (Finite 234) lit_3_6 = Finite 65"
    by (simp add: lit_3_6_eq pow2_def)
  have r1: "Math_round (Finite 65) = Finite 65"
    using Math_round_eqI [of 65 "65"] by simp
  have "round_double (65 * (8106479329266893 / 2251799813685248)) = Finite (of_int 8233143068786688 * pow2 (7 - 52))"
    by (rule round_double_eqI) (simp_all add: pow2_def)
  then have t: "js_times (Finite 65) lit_3_6 = Finite 234"
    by (simp add: lit_3_6_eq pow2_def)
  have r2: "Math_round (Finite 234) = Finite 234"
    using Math_round_eqI [of 234 "234"] by simp
  show ?thesis
    by (simp only: d r1 t r2)
qed

lemma hue_trip_252:
  "Math_round (js_times (Math_round (js_divide (Finite 252) lit_3_6)) lit_3_6) = Finite 252"
proof -
  have "round_double (252 / (8106479329266893 / 2251799813685248)) = Finite (of_int 4925812092436480 * pow2 (6 - 52))"
    by (rule round_double_eqI) (simp_all add: pow2_def)
  then have d: "js_divide (Finite 252) lit_3_6 = Finite 70"
    by (simp add: lit_3_6_eq pow2_def)
  have r1: "Math_round (Finite 70) = Finite 70"
    using Math_round_eqI [of 70 "70"] by simp
  have "round_double (70 * (8106479329266893 / 2251799813685248)) = Finite (of_int 8866461766385664 * pow2 (7 - 52))"
    by (rule round_double_eqI) (simp_all add: pow2_def)
  then have t: "js_times (Finite 70) lit_3_6 = Finite 252"
    by (simp add: lit_3_6_eq pow2_def)
  have r2: "Math_round (Finite 252) = Finite 252"
    using Math_round_eqI [of 252 "252"] by simp
  show ?thesis
    by (simp only: d r1 t r2)
qed

lemma hue_trip_270:
  "Math_round (js_times (Math_round (js_divide (Finite 270) lit_3_6)) lit_3_6) = Finite 270"
proof -
  have "round_double (270 / (8106479329266893 / 2251799813685248)) = Finite (of_int 5277655813324800 * pow2 (6 - 52))"
    by (rule round_double_eqI) (simp_all add: pow2_def)
  then have d: "js_divide (Finite 270) lit_3_6 = Finite 75"
    by (simp add: lit_3_6_eq pow2_def)
  have r1: "Math_round (Finite 75) = Finite 75"
    using Math_round_eqI [of 75 "75"] by simp
  have "round_double (75 * (8106479329266893 / 2251799813685248)) = Finite (of_int 4749890231992320 * pow2 (8 - 52))"
    by (rule round_double_eqI) (simp_all add: pow2_def)
  then have t: "js_times (Finite 75) lit_3_6 = Finite 270"
    by (simp add: lit_3_6_eq pow2_def)
  have r2: "Math_round (Finite 270) = Finite 270"
    using Math_round_eqI [of 270 "270"] by simp
  show ?thesis
    by (simp only: d r1 t r2)
qed

lemma hue_trip_288:
  "Math_round (js_times (Math_round (js_divide (Finite 288) lit_3_6)) lit_3_6) = Finite 288"
proof -
  have "round_double (288 / (8106479329266893 / 2251799813685248)) = Finite (of_int 5629499534213120 * pow2 (6 - 52))"
    by (rule round_double_eqI) (simp_all add: pow2_def)
  then have d: "js_divide (Finite 288) lit_3_6 = Finite 80"
    by (simp add: lit_3_6_eq pow2_def)
  have r1: "Math_round (Finite 80) = Finite 80"
    using Math_round_eqI [of 80 "80"] by simp
  have "round_double (80 * (8106479329266893 / 2251799813685248)) = Finite (of_int 5066549580791808 * pow2 (8 - 52))"
    by (rule round_double_eqI) (simp_all add: pow2_def)
  then have t: "js_times (Finite 80) lit_3_6 = Finite 288"
    by (simp add: lit_3_6_eq pow2_def)
  have r2: "Math_round (Finite 288) = Finite 288"
    using Math_round_eqI [of 288 "288"] by simp
  show ?thesis
    by (simp only: d r1 t r2)
qed

lemma hue_trip_306:
  "Math_round (js_times (Math_round (js_divide (Finite 306) lit_3_6)) lit_3_6) = Finite 306"
proof -
  have "round_double (306 / (8106479329266893 / 2251799813685248)) = Finite (of_int 5981343255101440 * pow2 (6 - 52))"
    by (rule round_double_eqI) (simp_all add: pow2_def)
  then have d: "js_divide (Finite 306) lit_3_6 = Finite 85"
    by (simp add: lit_3_6_eq pow2_def)
  have r1: "Math_round (Finite 85) = Finite 85"
    using Math_round_eqI [of 85 "85"] by simp
  have "round_double (85 * (8106479329266893 / 2251799813685248)) = Finite (of_int 5383208929591296 * pow2 (8 - 52))"
    by (rule round_double_eqI) (simp_all add: pow2_def)
  then have t: "js_times (Finite 85) lit_3_6 = Finite 306"
    by (simp add: lit_3_6_eq pow2_def)
  have r2: "Math_round (Finite 306) = Finite 306"
    using Math_round_eqI [of 306 "306"] by simp
  show ?thesis
    by (simp only: d r1 t r2)
qed

lemma hue_trip_324:
  "Math_round (js_times (Math_round (js_divide (Finite 324) lit_3_6)) lit_3_6) = Finite 324"
proof -
  have "round_double (324 / (8106479329266893 / 2251799813685248)) = Finite (of_int 6333186975989760 * pow2 (6 - 52))"
    by (rule round_double_eqI) (simp_all add: pow2_def)
  then have d: "js_divide (Finite 324) lit_3_6 = Finite 90"
    by (simp add: lit_3_6_eq pow2_def)
  have r1: "Math_round (Finite 90) = Finite 90"
    using Math_round_eqI [of 90 "90"] by simp
  have "round_double (90 * (8106479329266893 / 2251799813685248)) = Finite (of_int 5699868278390784 * pow2 (8 - 52))"
    by (rule round_double_eqI) (simp_all add: pow2_def)
  then have t: "js_times (Finite 90) lit_3_6 = Finite 324"
    by (simp add: lit_3_6_eq pow2_def)
  have r2: "Math_round (Finite 324) = Finite 324"
    using Math_round_eqI [of 324 "324"] by simp
  show ?thesis
    by (simp only: d r1 t r2)
qed

lemma hue_trip_342:
  "Math_round (js_times (Math_round (js_divide (Finite 342) lit_3_6)) lit_3_6) = Finite 342"
proof -
  have "round_double (342 / (8106479329266893 / 2251799813685248)) = Finite (of_int 6685030696878080 * pow2 (6 - 52))"
    by (rule round_double_eqI) (simp_all add: pow2_def)
  then have d: "js_divide (Finite 342) lit_3_6 = Finite 95"
    by (simp add: lit_3_6_eq pow2_def)
  have r1: "Math_round (Finite 95) = Finite 95"
    using Math_round_eqI [of 95 "95"] by simp
  have "round_double (95 * (8106479329266893 / 2251799813685248)) = Finite (of_int 6016527627190272 * pow2 (8 - 52))"
    by (rule round_double_eqI) (simp_all add: pow2_def)
  then have t: "js_times (Finite 95) lit_3_6 = Finite 342"
    by (simp add: lit_3_6_eq pow2_def)
  have r2: "Math_round (Finite 342) = Finite 342"
    using Math_round_eqI [of 342 "342"] by simp
  show ?thesis
    by (simp only: d r1 t r2)
qed

lemma hue_trip_360:
  "Math_round (js_times (Math_round (js_divide (Finite 360) lit_3_6)) lit_3_6) = Finite 360"
proof -
  have "round_double (360 / (8106479329266893 / 2251799813685248)) = Finite (of_int 7036874417766400 * pow2 (6 - 52))"
    by (rule round_double_eqI) (simp_all add: pow2_def)
  then have d: "js_divide (Finite 360) lit_3_6 = Finite 100"
    by (simp add: lit_3_6_eq pow2_def)
  have r1: "Math_round (Finite 100) = Finite 100"
    using Math_round_eqI [of 100 "100"] by simp
  have "round_double (100 * (8106479329266893 / 2251799813685248)) = Finite (of_int 6333186975989760 * pow2 (8 - 52))"
    by (rule round_double_eqI) (simp_all add: pow2_def)
  then have t: "js_times (Finite 100) lit_3_6 = Finite 360"
    by (simp add: lit_3_6_eq pow2_def)
  have r2: "Math_round (Finite 360) = Finite 360"
    using Math_round_eqI [of 360 "360"] by simp
  show ?thesis
    by (simp only: d r1 t r2)
qed

lemmas hue_trip_even =
  hue_trip_0 hue_trip_18 hue_trip_36 hue_trip_54 hue_trip_72 hue_trip_90
  hue_trip_108 hue_trip_126 hue_trip_144 hue_trip_162 hue_trip_180 hue_trip_198
  hue_trip_216 hue_trip_234 hue_trip_252 hue_trip_270 hue_trip_288 hue_trip_306
  hue_trip_324 hue_trip_342 hue_trip_360

section \<open>The claims\<close>

text \<open>Facts about the list of standard mappings that several statements share.\<close>

lemma clear_new: "clear CapabilityRegistry_new = CapabilityRegistry_new"
  by (simp add: clear_def CapabilityRegistry_new_def)

lemma standard_most_recent_reverse:
  "most_recent (\<lambda>m. platform m = LUTRON \<and> unifiedCapability m = SWITCH) standard_mappings =
     Some \<lparr>platform = LUTRON, platformCapability = ''OUTPUT'', unifiedCapability = SWITCH,
       conversionRequired = True, notes = Some ''Binary 0% or 100% only'',
       deprecated = None, deprecationMessage = None\<rparr>"
  by (simp add: most_recent_def standard_mappings_def)

lemma standard_most_recent_forward:
  "most_recent (\<lambda>m. platform m = LUTRON \<and> platformCapability m = ''OUTPUT'') standard_mappings =
     Some \<lparr>platform = LUTRON, platformCapability = ''OUTPUT'', unifiedCapability = DIMMER,
       conversionRequired = True, notes = Some ''Round 0.00-100.00 to 0-100'',
       deprecated = None, deprecationMessage = None\<rparr>"
  by (simp add: most_recent_def standard_mappings_def)

lemma standard_output_calls:
  "map unifiedCapability
     (filter (\<lambda>m. platform m = LUTRON \<and> platformCapability m = ''OUTPUT'') standard_mappings) =
     [SWITCH, DIMMER]"
  by (simp add: standard_mappings_def)

lemma set_DeviceCapability_values: "set DeviceCapability_values = UNIV"
proof -
  have "c \<in> set DeviceCapability_values" for c
    by (cases c) (simp_all add: DeviceCapability_values_def)
  then show ?thesis by blast
qed

text \<open>\<^bold>\<open>C1.\<close> Whatever the platform, the unified capability, the attribute name and the value
  \<open>x\<close>: when the registry holds no conversion for the triple (\<^verbatim>\<open>hasConversion\<close> is false),
  \<^verbatim>\<open>toPlatform\<close> and \<^verbatim>\<open>fromPlatform\<close> return \<open>x\<close> itself and throw nothing; and that is the
  case of every triple that none of the \<^verbatim>\<open>register\<close> calls made on a cleared registry
  names.\<close>

theorem C1_identity_fallback:
  "(\<not> hasConversion r p c a \<longrightarrow>
      ValueConversionRegistry_toPlatform r p c a x = Inr x \<and>
      ValueConversionRegistry_fromPlatform r p c a x = Inr x) \<and>
   ((\<forall>cv \<in> set calls. \<not> (conv_platform cv = p \<and> capability cv = c \<and> attribute cv = a)) \<longrightarrow>
      \<not> hasConversion (ValueConversionRegistry_register_all calls (ValueConversionRegistry_clear r0)) p c a \<and>
      ValueConversionRegistry_toPlatform
        (ValueConversionRegistry_register_all calls (ValueConversionRegistry_clear r0)) p c a x = Inr x \<and>
      ValueConversionRegistry_fromPlatform
        (ValueConversionRegistry_register_all calls (ValueConversionRegistry_clear r0)) p c a x = Inr x)"
proof -
  have "most_recent (\<lambda>cv. conv_platform cv = p \<and> capability cv = c \<and> attribute cv = a) calls = None"
    if "\<forall>cv \<in> set calls. \<not> (conv_platform cv = p \<and> capability cv = c \<and> attribute cv = a)"
    using that by (simp add: most_recent_def filter_empty_conv [THEN iffD2])
  then show ?thesis
    by (simp add: hasConversion_getConversion toPlatform_getConversion fromPlatform_getConversion
        getConversion_register_all getConversion_clear)
qed

text \<open>C1 at the standard conversions: no conversion is registered for the saturation of
  a SmartThings colour, and the value 50 passes through both ways.\<close>

theorem C1_identity_fallback_witness:
  "\<not> hasConversion (initializeValueConversions example_host (ValueConversionRegistry_clear ValueConversionRegistry_new))
        SMARTTHINGS COLOR ''saturation'' \<and>
   filter (\<lambda>cv. conv_platform cv = SMARTTHINGS \<and> capability cv = COLOR \<and> attribute cv = ''saturation'')
     (standard_conversions example_host) = [] \<and>
   ValueConversionRegistry_toPlatform
     (initializeValueConversions example_host (ValueConversionRegistry_clear ValueConversionRegistry_new))
     SMARTTHINGS COLOR ''saturation'' (JNum (Finite 50)) = Inr (JNum (Finite 50)) \<and>
   ValueConversionRegistry_fromPlatform
     (initializeValueConversions example_host (ValueConversionRegistry_clear ValueConversionRegistry_new))
     SMARTTHINGS COLOR ''saturation'' (JNum (Finite 50)) = Inr (JNum (Finite 50))"
proof -
  let ?S = "initializeValueConversions example_host (ValueConversionRegistry_clear ValueConversionRegistry_new)"
  have none: "\<not> hasConversion ?S SMARTTHINGS COLOR ''saturation''"
    by (simp add: hasConversion_getConversion standard_getConversion)
  have calls: "filter (\<lambda>cv. conv_platform cv = SMARTTHINGS \<and> capability cv = COLOR \<and> attribute cv = ''saturation'')
     (standard_conversions example_host) = []"
    by (simp add: standard_conversions_def)
  have calls': "\<forall>cv \<in> set (standard_conversions example_host).
      \<not> (conv_platform cv = SMARTTHINGS \<and> capability cv = COLOR \<and> attribute cv = ''saturation'')"
    using calls by (simp only: filter_empty_conv)
  note t = C1_identity_fallback [of ?S SMARTTHINGS COLOR "''saturation''" "JNum (Finite 50)"
      "standard_conversions example_host" ValueConversionRegistry_new]
  have "ValueConversionRegistry_toPlatform ?S SMARTTHINGS COLOR ''saturation'' (JNum (Finite 50))
          = Inr (JNum (Finite 50)) \<and>
        ValueConversionRegistry_fromPlatform ?S SMARTTHINGS COLOR ''saturation'' (JNum (Finite 50))
          = Inr (JNum (Finite 50))"
    using t none by blast
  moreover have "ValueConversionRegistry_toPlatform
          (ValueConversionRegistry_register_all (standard_conversions example_host)
             (ValueConversionRegistry_clear ValueConversionRegistry_new))
          SMARTTHINGS COLOR ''saturation'' (JNum (Finite 50)) = Inr (JNum (Finite 50))"
    using t calls' by blast
  ultimately show ?thesis
    using none calls by blast
qed

text \<open>\<^bold>\<open>C2.\<close> After the standard initialisation the Tuya dimmer \<^verbatim>\<open>level\<close> converter sends a
  Number \<open>n\<close> to \<^verbatim>\<open>Math.round(n * 10)\<close> on the way to the platform and to
  \<^verbatim>\<open>Math.round(n / 10)\<close> on the way back; 750 comes back as 75, 75 goes out as 750, 50 as
  500, and 500 comes back as 50; and every integer from 0 to 100 survives the round trip to
  the platform and back unchanged.\<close>

theorem C2_tuya_level:
  "ValueConversionRegistry_toPlatform (initializeValueConversions h (ValueConversionRegistry_clear r))
     TUYA DIMMER ''level'' (JNum n) = Inr (JNum (Math_round (js_times n lit_10))) \<and>
   ValueConversionRegistry_fromPlatform (initializeValueConversions h (ValueConversionRegistry_clear r))
     TUYA DIMMER ''level'' (JNum n) = Inr (JNum (Math_round (js_divide n lit_10))) \<and>
   ValueConversionRegistry_fromPlatform (initializeValueConversions h (ValueConversionRegistry_clear r))
     TUYA DIMMER ''level'' (JNum (Finite 750)) = Inr (JNum (Finite 75)) \<and>
   ValueConversionRegistry_toPlatform (initializeValueConversions h (ValueConversionRegistry_clear r))
     TUYA DIMMER ''level'' (JNum (Finite 75)) = Inr (JNum (Finite 750)) \<and>
   ValueConversionRegistry_toPlatform (initializeValueConversions h (ValueConversionRegistry_clear r))
     TUYA DIMMER ''level'' (JNum (Finite 50)) = Inr (JNum (Finite 500)) \<and>
   ValueConversionRegistry_fromPlatform (initializeValueConversions h (ValueConversionRegistry_clear r))
     TUYA DIMMER ''level'' (JNum (Finite 500)) = Inr (JNum (Finite 50)) \<and>
   (\<forall>v::int. 0 \<le> v \<and> v \<le> 100 \<longrightarrow>
      bind_err
        (ValueConversionRegistry_toPlatform (initializeValueConversions h (ValueConversionRegistry_clear r))
           TUYA DIMMER ''level'' (JNum (Finite (of_int v))))
        (ValueConversionRegistry_fromPlatform (initializeValueConversions h (ValueConversionRegistry_clear r))
           TUYA DIMMER ''level'')
      = Inr (JNum (Finite (of_int v))))"
proof -
  let ?S = "initializeValueConversions h (ValueConversionRegistry_clear r)"
  have to: "ValueConversionRegistry_toPlatform ?S TUYA DIMMER ''level'' (JNum n)
              = Inr (JNum (Math_round (js_times n lit_10)))" for n
    by (simp add: toPlatform_getConversion standard_getConversion standard_conversions_def
        tuya_level_toPlatform_def)
  have fro: "ValueConversionRegistry_fromPlatform ?S TUYA DIMMER ''level'' (JNum n)
              = Inr (JNum (Math_round (js_divide n lit_10)))" for n
    by (simp add: fromPlatform_getConversion standard_getConversion standard_conversions_def
        tuya_level_fromPlatform_def)
  have trip: "bind_err (ValueConversionRegistry_toPlatform ?S TUYA DIMMER ''level'' (JNum (Finite (of_int v))))
                (ValueConversionRegistry_fromPlatform ?S TUYA DIMMER ''level'')
              = Inr (JNum (Finite (of_int v)))" if "0 \<le> v" "v \<le> 100" for v :: int
    using tuya_level_exact [OF that] by (simp only: to fro bind_err.simps)
  show ?thesis
    using trip by (simp add: to fro level_values)
qed

text \<open>C2 on the example host, with the round trip taken at 42.\<close>

theorem C2_tuya_level_witness:
  "(0::int) \<le> 42 \<and> (42::int) \<le> 100 \<and>
   bind_err
     (ValueConversionRegistry_toPlatform
        (initializeValueConversions example_host (ValueConversionRegistry_clear ValueConversionRegistry_new))
        TUYA DIMMER ''level'' (JNum (Finite 42)))
     (ValueConversionRegistry_fromPlatform
        (initializeValueConversions example_host (ValueConversionRegistry_clear ValueConversionRegistry_new))
        TUYA DIMMER ''level'')
   = Inr (JNum (Finite 42))"
proof -
  have "\<forall>v::int. 0 \<le> v \<and> v \<le> 100 \<longrightarrow>
      bind_err
        (ValueConversionRegistry_toPlatform
           (initializeValueConversions example_host (ValueConversionRegistry_clear ValueConversionRegistry_new))
           TUYA DIMMER ''level'' (JNum (Finite (of_int v))))
        (ValueConversionRegistry_fromPlatform
           (initializeValueConversions example_host (ValueConversionRegistry_clear ValueConversionRegistry_new))
           TUYA DIMMER ''level'')
      = Inr (JNum (Finite (of_int v)))"
    using C2_tuya_level [of example_host ValueConversionRegistry_new NaN] by (elim conjE)
  from this [THEN spec, of 42] show ?thesis
    by simp
qed

text \<open>\<^bold>\<open>C3.\<close> After the standard initialisation the SmartThings colour \<^verbatim>\<open>hue\<close> converter sends
  a Number \<open>n\<close> to \<^verbatim>\<open>Math.round(n / 3.6)\<close> on the way to the platform (degrees to percent)
  and to \<^verbatim>\<open>Math.round(n * 3.6)\<close> on the way back (percent to degrees); 50 percent comes back
  as 180 degrees and 270 degrees go out as 75 percent.\<close>

theorem C3_smartthings_hue:
  "ValueConversionRegistry_toPlatform (initializeValueConversions h (ValueConversionRegistry_clear r))
     SMARTTHINGS COLOR ''hue'' (JNum n) = Inr (JNum (Math_round (js_divide n lit_3_6))) \<and>
   ValueConversionRegistry_fromPlatform (initializeValueConversions h (ValueConversionRegistry_clear r))
     SMARTTHINGS COLOR ''hue'' (JNum n) = Inr (JNum (Math_round (js_times n lit_3_6))) \<and>
   ValueConversionRegistry_fromPlatform (initializeValueConversions h (ValueConversionRegistry_clear r))
     SMARTTHINGS COLOR ''hue'' (JNum (Finite 50)) = Inr (JNum (Finite 180)) \<and>
   ValueConversionRegistry_toPlatform (initializeValueConversions h (ValueConversionRegistry_clear r))
     SMARTTHINGS COLOR ''hue'' (JNum (Finite 270)) = Inr (JNum (Finite 75))"
proof -
  let ?S = "initializeValueConversions h (ValueConversionRegistry_clear r)"
  have to: "ValueConversionRegistry_toPlatform ?S SMARTTHINGS COLOR ''hue'' (JNum n)
              = Inr (JNum (Math_round (js_divide n lit_3_6)))" for n
    by (simp add: toPlatform_getConversion standard_getConversion standard_conversions_def
        smartthings_hue_toPlatform_def)
  have fro: "ValueConversionRegistry_fromPlatform ?S SMARTTHINGS COLOR ''hue'' (JNum n)
              = Inr (JNum (Math_round (js_times n lit_3_6)))" for n
    by (simp add: fromPlatform_getConversion standard_getConversion standard_conversions_def
        smartthings_hue_fromPlatform_def)
  show ?thesis
    by (simp add: to fro times_50_lit_3_6 divide_270_lit_3_6 hue_rounds del: Math_round.simps)
qed

text \<open>\<^bold>\<open>C4\<close> as the source has it. For a registry built by any run of registrations on a
  cleared registry and for every platform: each element of \<^verbatim>\<open>getSupportedCapabilities\<close> is
  one of the 31 members of the enum, and the result is free of duplicates exactly when no
  two platform capability names registered for the platform map to the same unified
  capability (the loop pushes one element for each forward entry of the platform).\<close>

theorem C4_supported_capabilities:
  "set (getSupportedCapabilities (register_all calls (clear r)) p) \<subseteq> set DeviceCapability_values \<and>
   length DeviceCapability_values = 31 \<and> distinct DeviceCapability_values \<and>
   (distinct (getSupportedCapabilities (register_all calls (clear r)) p) \<longleftrightarrow>
      inj_on (getUnifiedCapability (register_all calls (clear r)) p)
        (set (getPlatformCapabilities (register_all calls (clear r)) p)))"
  using distinct_getSupportedCapabilities_iff [OF keyed_reachable, of calls r p]
  by (simp add: set_DeviceCapability_values) (simp add: DeviceCapability_values_def)

text \<open>C4 as the source has it, at the standard mappings and Lutron.\<close>

theorem C4_supported_capabilities_witness:
  "set (getSupportedCapabilities (register_all standard_mappings (clear CapabilityRegistry_new)) LUTRON)
     \<subseteq> set DeviceCapability_values \<and>
   length DeviceCapability_values = 31 \<and> distinct DeviceCapability_values \<and>
   (distinct (getSupportedCapabilities (register_all standard_mappings (clear CapabilityRegistry_new)) LUTRON) \<longleftrightarrow>
      inj_on (getUnifiedCapability (register_all standard_mappings (clear CapabilityRegistry_new)) LUTRON)
        (set (getPlatformCapabilities (register_all standard_mappings (clear CapabilityRegistry_new)) LUTRON)))"
  using C4_supported_capabilities [of standard_mappings CapabilityRegistry_new LUTRON]
  by simp

text \<open>C4 as the specification states it fails: after the standard initialisation the
  capabilities listed for SmartThings hold \<open>DOOR_CONTROL\<close> twice, once for the entry of
  \<^verbatim>\<open>doorControl\<close> and once for the entry of \<^verbatim>\<open>garageDoorControl\<close>.\<close>

theorem C4_no_duplicates_counterexample:
  "\<not> distinct (getSupportedCapabilities (initializeCapabilityMappings (clear CapabilityRegistry_new)) SMARTTHINGS)"
proof -
  let ?R = "register_all standard_mappings (clear CapabilityRegistry_new)"
  have k: "keyed (mappings ?R)"
    by (rule keyed_reachable)
  have "map_option unifiedCapability
          (most_recent (\<lambda>m. platform m = SMARTTHINGS \<and> platformCapability m = ''doorControl'')
             standard_mappings) = Some DOOR_CONTROL"
    by (simp add: most_recent_def standard_mappings_def)
  then have d: "map_option unifiedCapability (getMapping ?R SMARTTHINGS ''doorControl'') = Some DOOR_CONTROL"
    by (auto simp: getMapping_register_all)
  have "map_option unifiedCapability
          (most_recent (\<lambda>m. platform m = SMARTTHINGS \<and> platformCapability m = ''garageDoorControl'')
             standard_mappings) = Some DOOR_CONTROL"
    by (simp add: most_recent_def standard_mappings_def)
  then have g: "map_option unifiedCapability (getMapping ?R SMARTTHINGS ''garageDoorControl'') = Some DOOR_CONTROL"
    by (auto simp: getMapping_register_all)
  from d obtain md where md: "getMapping ?R SMARTTHINGS ''doorControl'' = Some md"
    by auto
  from g obtain mg where mg: "getMapping ?R SMARTTHINGS ''garageDoorControl'' = Some mg"
    by auto
  have "''doorControl'' \<in> set (getPlatformCapabilities ?R SMARTTHINGS)"
    and "''garageDoorControl'' \<in> set (getPlatformCapabilities ?R SMARTTHINGS)"
    using getPlatformCapabilities_member [OF k md] getPlatformCapabilities_member [OF k mg]
    by simp_all
  moreover have "getUnifiedCapability ?R SMARTTHINGS ''doorControl'' =
                 getUnifiedCapability ?R SMARTTHINGS ''garageDoorControl''"
    using d g by (simp only: getUnifiedCapability_getMapping)
  moreover have "''doorControl'' \<noteq> ''garageDoorControl''"
    by simp
  ultimately have "\<not> inj_on (getUnifiedCapability ?R SMARTTHINGS) (set (getPlatformCapabilities ?R SMARTTHINGS))"
    by (meson inj_onD)
  then show ?thesis
    by (simp add: initializeCapabilityMappings_def distinct_getSupportedCapabilities_iff [OF k])
qed

text \<open>\<^bold>\<open>C5.\<close> Registration is last-write-wins. After any run of \<^verbatim>\<open>register\<close> calls on any
  registry, \<^verbatim>\<open>getUnifiedCapability(platform, name)\<close> is the unified capability of the most
  recent call with that platform and name, and \<^verbatim>\<open>getPlatformCapability(platform, cap)\<close>
  is the platform name of the most recent call with that platform and unified capability
  (where the run has no such call, the answer is the one of the registry before the run);
  so when the calls for the pair all carry one alias, that alias is returned.\<close>

theorem C5_last_write_wins:
  "getUnifiedCapability (register_all calls r) p name =
     (case most_recent (\<lambda>m. platform m = p \<and> platformCapability m = name) calls of
        Some m \<Rightarrow> Some (unifiedCapability m)
      | None \<Rightarrow> getUnifiedCapability r p name) \<and>
   getPlatformCapability (register_all calls r) p c =
     (case most_recent (\<lambda>m. platform m = p \<and> unifiedCapability m = c) calls of
        Some m \<Rightarrow> Some (platformCapability m)
      | None \<Rightarrow> getPlatformCapability r p c) \<and>
   (set (map platformCapability (filter (\<lambda>m. platform m = p \<and> unifiedCapability m = c) calls)) = {alias}
      \<longrightarrow> getPlatformCapability (register_all calls r) p c = Some alias)"
proof -
  let ?P = "\<lambda>m. platform m = p \<and> unifiedCapability m = c"
  have fwd: "getUnifiedCapability (register_all calls r) p name =
     (case most_recent (\<lambda>m. platform m = p \<and> platformCapability m = name) calls of
        Some m \<Rightarrow> Some (unifiedCapability m)
      | None \<Rightarrow> getUnifiedCapability r p name)"
    by (simp add: getUnifiedCapability_getMapping getMapping_register_all split: option.splits)
  have rev: "getPlatformCapability (register_all calls r) p c =
     (case most_recent ?P calls of
        Some m \<Rightarrow> Some (platformCapability m)
      | None \<Rightarrow> getPlatformCapability r p c)"
    by (rule getPlatformCapability_register_all)
  have one: "getPlatformCapability (register_all calls r) p c = Some alias"
    if "set (map platformCapability (filter ?P calls)) = {alias}"
  proof -
    have ne: "filter ?P calls \<noteq> []"
    proof
      assume e: "filter ?P calls = []"
      from that [unfolded e] show False by simp
    qed
    then have "most_recent ?P calls = Some (last (filter ?P calls))"
      by (simp add: most_recent_def split: list.splits)
    moreover have "platformCapability (last (filter ?P calls)) \<in> set (map platformCapability (filter ?P calls))"
      using ne last_in_set [OF ne] by (simp del: set_filter)
    then have "platformCapability (last (filter ?P calls)) = alias"
      by (simp only: that singleton_iff)
    ultimately show ?thesis
      by (simp add: rev)
  qed
  from fwd rev one show ?thesis
    by blast
qed

text \<open>C5 at the standard mappings on a new registry: \<^verbatim>\<open>OUTPUT\<close> of Lutron was registered for
  \<open>SWITCH\<close> and then for \<open>DIMMER\<close>, and \<open>SWITCH\<close> of Lutron has the one alias \<^verbatim>\<open>OUTPUT\<close>.\<close>

theorem C5_last_write_wins_witness:
  "getUnifiedCapability (register_all standard_mappings CapabilityRegistry_new) LUTRON ''OUTPUT'' = Some DIMMER \<and>
   set (map platformCapability
          (filter (\<lambda>m. platform m = LUTRON \<and> unifiedCapability m = SWITCH) standard_mappings)) = {''OUTPUT''} \<and>
   getPlatformCapability (register_all standard_mappings CapabilityRegistry_new) LUTRON SWITCH = Some ''OUTPUT''"
proof -
  note t = C5_last_write_wins [of standard_mappings CapabilityRegistry_new LUTRON "''OUTPUT''" SWITCH "''OUTPUT''"]
  have a: "set (map platformCapability
          (filter (\<lambda>m. platform m = LUTRON \<and> unifiedCapability m = SWITCH) standard_mappings)) = {''OUTPUT''}"
    by (simp add: standard_mappings_def)
  have b: "getUnifiedCapability (register_all standard_mappings CapabilityRegistry_new) LUTRON ''OUTPUT'' = Some DIMMER"
    using t by (simp add: standard_most_recent_forward)
  have c: "getPlatformCapability (register_all standard_mappings CapabilityRegistry_new) LUTRON SWITCH = Some ''OUTPUT''"
    using t a by blast
  from a b c show ?thesis
    by blast
qed

text \<open>\<^bold>\<open>C6.\<close> After the standard initialisation of a cleared registry the two views of
  support disagree on the Lutron switch: \<^verbatim>\<open>isPlatformSupported(LUTRON, SWITCH)\<close> is true and
  \<^verbatim>\<open>getPlatformCapability(LUTRON, SWITCH)\<close> is \<^verbatim>\<open>OUTPUT\<close>, yet \<open>SWITCH\<close> is not among
  \<^verbatim>\<open>getSupportedCapabilities(LUTRON)\<close> and \<^verbatim>\<open>getUnifiedCapability(LUTRON, 'OUTPUT')\<close> is
  \<open>DIMMER\<close>: \<^verbatim>\<open>OUTPUT\<close> is registered for \<open>SWITCH\<close> first and for \<open>DIMMER\<close> after it, which
  overwrites the forward entry and leaves the reverse entry of \<open>SWITCH\<close>.\<close>

theorem C6_lutron_switch_views:
  "isPlatformSupported (initializeCapabilityMappings (clear r)) LUTRON SWITCH \<and>
   getPlatformCapability (initializeCapabilityMappings (clear r)) LUTRON SWITCH = Some ''OUTPUT'' \<and>
   SWITCH \<notin> set (getSupportedCapabilities (initializeCapabilityMappings (clear r)) LUTRON) \<and>
   getUnifiedCapability (initializeCapabilityMappings (clear r)) LUTRON ''OUTPUT'' = Some DIMMER \<and>
   map unifiedCapability
     (filter (\<lambda>m. platform m = LUTRON \<and> platformCapability m = ''OUTPUT'') standard_mappings) =
     [SWITCH, DIMMER]"
proof -
  let ?R = "initializeCapabilityMappings (clear r)"
  have rev: "getPlatformCapability ?R LUTRON SWITCH = Some ''OUTPUT''"
    by (simp add: initializeCapabilityMappings_def getPlatformCapability_register_all
        standard_most_recent_reverse)
  have fwd: "getUnifiedCapability ?R LUTRON ''OUTPUT'' = Some DIMMER"
    by (simp add: initializeCapabilityMappings_def getUnifiedCapability_getMapping
        getMapping_register_all standard_most_recent_forward)
  show ?thesis
    by (simp add: rev fwd isPlatformSupported_iff lutron_supported standard_output_calls)
qed

text \<open>\<^bold>\<open>C7.\<close> The SmartThings hue conversion is not an exact round trip on the integer degrees
  from 0 to 360: 100 degrees go out as 28 percent and come back as 101 degrees. For the
  degrees that divide evenly, those whose percentage is a whole number (the multiples of
  18), the round trip is exact; 270 degrees go out as 75 percent and come back as 270
  degrees.\<close>

theorem C7_hue_round_trip_not_exact:
  "bind_err
     (ValueConversionRegistry_toPlatform (initializeValueConversions h (ValueConversionRegistry_clear r))
        SMARTTHINGS COLOR ''hue'' (JNum (Finite 100)))
     (ValueConversionRegistry_fromPlatform (initializeValueConversions h (ValueConversionRegistry_clear r))
        SMARTTHINGS COLOR ''hue'')
     = Inr (JNum (Finite 101)) \<and>
   bind_err
     (ValueConversionRegistry_toPlatform (initializeValueConversions h (ValueConversionRegistry_clear r))
        SMARTTHINGS COLOR ''hue'' (JNum (Finite 270)))
     (ValueConversionRegistry_fromPlatform (initializeValueConversions h (ValueConversionRegistry_clear r))
        SMARTTHINGS COLOR ''hue'')
     = Inr (JNum (Finite 270)) \<and>
   (\<exists>v::int. 0 \<le> v \<and> v \<le> 360 \<and>
      bind_err
        (ValueConversionRegistry_toPlatform (initializeValueConversions h (ValueConversionRegistry_clear r))
           SMARTTHINGS COLOR ''hue'' (JNum (Finite (of_int v))))
        (ValueConversionRegistry_fromPlatform (initializeValueConversions h (ValueConversionRegistry_clear r))
           SMARTTHINGS COLOR ''hue'')
      \<noteq> Inr (JNum (Finite (of_int v)))) \<and>
   (\<forall>v::int. 0 \<le> v \<and> v \<le> 360 \<and> 18 dvd v \<longrightarrow>
      bind_err
        (ValueConversionRegistry_toPlatform (initializeValueConversions h (ValueConversionRegistry_clear r))
           SMARTTHINGS COLOR ''hue'' (JNum (Finite (of_int v))))
        (ValueConversionRegistry_fromPlatform (initializeValueConversions h (ValueConversionRegistry_clear r))
           SMARTTHINGS COLOR ''hue'')
      = Inr (JNum (Finite (of_int v))))"
proof -
  let ?S = "initializeValueConversions h (ValueConversionRegistry_clear r)"
  let ?trip = "\<lambda>x. bind_err (ValueConversionRegistry_toPlatform ?S SMARTTHINGS COLOR ''hue'' (JNum (Finite x)))
                    (ValueConversionRegistry_fromPlatform ?S SMARTTHINGS COLOR ''hue'')"
  have trip: "?trip x = Inr (JNum (Math_round (js_times (Math_round (js_divide (Finite x) lit_3_6)) lit_3_6)))" for x
    by (simp add: toPlatform_getConversion fromPlatform_getConversion standard_getConversion
        standard_conversions_def smartthings_hue_toPlatform_def smartthings_hue_fromPlatform_def
        del: Math_round.simps)
  have a: "?trip 100 = Inr (JNum (Finite 101))"
    by (simp only: trip divide_100_lit_3_6 hue_rounds times_28_lit_3_6)
  have b: "?trip 270 = Inr (JNum (Finite 270))"
    by (simp only: trip divide_270_lit_3_6 hue_rounds times_75_lit_3_6)
  have "?trip (of_int 100) \<noteq> Inr (JNum (Finite (of_int 100)))"
    using a by simp
  then have c: "\<exists>v::int. 0 \<le> v \<and> v \<le> 360 \<and> ?trip (of_int v) \<noteq> Inr (JNum (Finite (of_int v)))"
    by (intro exI [of _ 100]) simp
  have d: "?trip (of_int v) = Inr (JNum (Finite (of_int v)))"
    if "0 \<le> v \<and> v \<le> 360 \<and> 18 dvd v" for v :: int
  proof -
    from that have "v = 0 \<or> v = 18 \<or> v = 36 \<or> v = 54 \<or> v = 72 \<or> v = 90 \<or> v = 108 \<or>
        v = 126 \<or> v = 144 \<or> v = 162 \<or> v = 180 \<or> v = 198 \<or> v = 216 \<or> v = 234 \<or>
        v = 252 \<or> v = 270 \<or> v = 288 \<or> v = 306 \<or> v = 324 \<or> v = 342 \<or> v = 360"
      by presburger
    then show ?thesis
      by (elim disjE) (simp_all add: trip hue_trip_even del: Math_round.simps)
  qed
  from a b c d show ?thesis
    by blast
qed

text \<open>C7 at 180 degrees, a multiple of 18: out as 50 percent and back as 180 degrees.\<close>

theorem C7_hue_round_trip_not_exact_witness:
  "(0::int) \<le> 180 \<and> (180::int) \<le> 360 \<and> (18::int) dvd 180 \<and>
   bind_err
     (ValueConversionRegistry_toPlatform (initializeValueConversions example_host (ValueConversionRegistry_clear ValueConversionRegistry_new))
        SMARTTHINGS COLOR ''hue'' (JNum (Finite 180)))
     (ValueConversionRegistry_fromPlatform (initializeValueConversions example_host (ValueConversionRegistry_clear ValueConversionRegistry_new))
        SMARTTHINGS COLOR ''hue'')
   = Inr (JNum (Finite 180))"
proof -
  have "\<forall>v::int. 0 \<le> v \<and> v \<le> 360 \<and> 18 dvd v \<longrightarrow>
      bind_err
        (ValueConversionRegistry_toPlatform (initializeValueConversions example_host (ValueConversionRegistry_clear ValueConversionRegistry_new))
           SMARTTHINGS COLOR ''hue'' (JNum (Finite (of_int v))))
        (ValueConversionRegistry_fromPlatform (initializeValueConversions example_host (ValueConversionRegistry_clear ValueConversionRegistry_new))
           SMARTTHINGS COLOR ''hue'')
      = Inr (JNum (Finite (of_int v)))"
    using C7_hue_round_trip_not_exact [of example_host ValueConversionRegistry_new] by (elim conjE)
  from this [THEN spec, of 180] show ?thesis
    by simp
qed

text \<open>\<^bold>\<open>C8.\<close> No operation of \<^verbatim>\<open>CapabilityRegistry\<close> has a throwing path: each is a total
  function of the registry and its arguments, and a lookup that misses answers with the
  sentinel. In the registry built by any run of registrations on a cleared registry (every
  state the class can reach is one, the new registry being a cleared one): a
  platform and name that no call registered give \<open>None\<close> from \<^verbatim>\<open>getUnifiedCapability\<close>
  and \<^verbatim>\<open>getMapping\<close>; a platform and unified capability that no call registered give
  \<open>None\<close> from \<^verbatim>\<open>getPlatformCapability\<close> and false from \<^verbatim>\<open>isPlatformSupported\<close>; a
  platform that no call registered gives empty lists from \<^verbatim>\<open>getSupportedCapabilities\<close> and
  \<^verbatim>\<open>getPlatformCapabilities\<close>; and a cleared registry counts no mapping.\<close>

theorem C8_lookup_miss_sentinels:
  "((\<forall>m \<in> set calls. \<not> (platform m = p \<and> platformCapability m = name)) \<longrightarrow>
      getUnifiedCapability (register_all calls (clear r)) p name = None \<and>
      getMapping (register_all calls (clear r)) p name = None) \<and>
   ((\<forall>m \<in> set calls. \<not> (platform m = p \<and> unifiedCapability m = c)) \<longrightarrow>
      getPlatformCapability (register_all calls (clear r)) p c = None \<and>
      \<not> isPlatformSupported (register_all calls (clear r)) p c) \<and>
   ((\<forall>m \<in> set calls. platform m \<noteq> p) \<longrightarrow>
      getSupportedCapabilities (register_all calls (clear r)) p = [] \<and>
      getPlatformCapabilities (register_all calls (clear r)) p = []) \<and>
   getMappingCount (clear r) = 0"
proof -
  let ?R = "register_all calls (clear r)"
  have none: "most_recent P calls = None" if "\<forall>m \<in> set calls. \<not> P m" for P
    using that by (simp add: most_recent_def filter_empty_conv [THEN iffD2])
  have base: "getMapping (clear r) p n = None" "getPlatformCapability (clear r) p c = None" for n
    by (simp_all add: getMapping_def getPlatformCapability_def clear_def map_get_def)
  have fwd: "getUnifiedCapability ?R p name = None \<and> getMapping ?R p name = None"
    if "\<forall>m \<in> set calls. \<not> (platform m = p \<and> platformCapability m = name)"
    using none [OF that] base
    by (simp add: getUnifiedCapability_getMapping getMapping_register_all)
  have rev: "getPlatformCapability ?R p c = None \<and> \<not> isPlatformSupported ?R p c"
    if "\<forall>m \<in> set calls. \<not> (platform m = p \<and> unifiedCapability m = c)"
    using none [OF that] base
    by (simp add: isPlatformSupported_iff getPlatformCapability_register_all)
  have enum: "getSupportedCapabilities ?R p = [] \<and> getPlatformCapabilities ?R p = []"
    if "\<forall>m \<in> set calls. platform m \<noteq> p"
  proof -
    have "entries_of p (mappings ?R) = []"
    proof (rule ccontr)
      assume "entries_of p (mappings ?R) \<noteq> []"
      then obtain e where e: "e \<in> set (entries_of p (mappings ?R))"
        by (cases "entries_of p (mappings ?R)") auto
      then have "getMapping ?R p (platformCapability (snd e)) \<noteq> None"
        using getUnifiedCapability_entry [OF keyed_reachable e]
        by (auto simp: getUnifiedCapability_getMapping)
      moreover have "getMapping ?R p (platformCapability (snd e)) = None"
      proof -
        have "most_recent (\<lambda>m. platform m = p \<and> platformCapability m = platformCapability (snd e)) calls = None"
          using that by (intro none) blast
        then show ?thesis
          by (simp add: getMapping_register_all base)
      qed
      ultimately show False by simp
    qed
    then show ?thesis
      by (simp add: getSupportedCapabilities_keyed [OF keyed_reachable]
          getPlatformCapabilities_keyed [OF keyed_reachable])
  qed
  have cnt: "getMappingCount (clear r) = 0"
    by (simp add: getMappingCount_def clear_def map_size_def)
  from fwd rev enum cnt show ?thesis
    by blast
qed

text \<open>C8 after the six Lutron registrations of the standard mappings: the name
  \<^verbatim>\<open>colorControl\<close> and the capability \<open>COLOR\<close> are unknown for Lutron, and nothing is
  registered for Tuya.\<close>

theorem C8_lookup_miss_sentinels_witness:
  "filter (\<lambda>m. platform m = LUTRON \<and> platformCapability m = ''colorControl'') (drop 54 standard_mappings) = [] \<and>
   filter (\<lambda>m. platform m = LUTRON \<and> unifiedCapability m = COLOR) (drop 54 standard_mappings) = [] \<and>
   filter (\<lambda>m. platform m = TUYA) (drop 54 standard_mappings) = [] \<and>
   getUnifiedCapability (register_all (drop 54 standard_mappings) (clear CapabilityRegistry_new)) LUTRON ''colorControl'' = None \<and>
   getMapping (register_all (drop 54 standard_mappings) (clear CapabilityRegistry_new)) LUTRON ''colorControl'' = None \<and>
   getPlatformCapability (register_all (drop 54 standard_mappings) (clear CapabilityRegistry_new)) LUTRON COLOR = None \<and>
   \<not> isPlatformSupported (register_all (drop 54 standard_mappings) (clear CapabilityRegistry_new)) LUTRON COLOR \<and>
   getSupportedCapabilities (register_all (drop 54 standard_mappings) (clear CapabilityRegistry_new)) TUYA = [] \<and>
   getPlatformCapabilities (register_all (drop 54 standard_mappings) (clear CapabilityRegistry_new)) TUYA = []"
proof -
  have a: "filter (\<lambda>m. platform m = LUTRON \<and> platformCapability m = ''colorControl'') (drop 54 standard_mappings) = []"
    by (simp add: standard_mappings_def)
  have b: "filter (\<lambda>m. platform m = LUTRON \<and> unifiedCapability m = COLOR) (drop 54 standard_mappings) = []"
    by (simp add: standard_mappings_def)
  have c: "filter (\<lambda>m. platform m = TUYA) (drop 54 standard_mappings) = []"
    by (simp add: standard_mappings_def)
  have a': "\<forall>m \<in> set (drop 54 standard_mappings). \<not> (platform m = LUTRON \<and> platformCapability m = ''colorControl'')"
    using a by (simp only: filter_empty_conv)
  have b': "\<forall>m \<in> set (drop 54 standard_mappings). \<not> (platform m = LUTRON \<and> unifiedCapability m = COLOR)"
    using b by (simp only: filter_empty_conv)
  have c': "\<forall>m \<in> set (drop 54 standard_mappings). platform m \<noteq> TUYA"
    using c by (simp only: filter_empty_conv)
  from a b c a' b' c'
    C8_lookup_miss_sentinels [of "drop 54 standard_mappings" LUTRON "''colorControl''" CapabilityRegistry_new COLOR]
    C8_lookup_miss_sentinels [of "drop 54 standard_mappings" TUYA "''colorControl''" CapabilityRegistry_new COLOR]
  show ?thesis
    by blast
qed

text \<open>\<^bold>\<open>C9.\<close> After the two initialisation routines on cleared registries
  \<^verbatim>\<open>getMappingCount()\<close> is 59, more than 50, and \<^verbatim>\<open>getConversionCount()\<close> is 4; clearing
  both registries and running the two routines again gives the same two counts.\<close>

theorem C9_counts_after_initialization:
  "getMappingCount (initializeCapabilityMappings (clear r)) = 59 \<and>
   50 < getMappingCount (initializeCapabilityMappings (clear r)) \<and>
   getConversionCount (initializeValueConversions h (ValueConversionRegistry_clear v)) = 4 \<and>
   4 \<le> getConversionCount (initializeValueConversions h (ValueConversionRegistry_clear v)) \<and>
   getMappingCount (initializeCapabilityMappings (clear (initializeCapabilityMappings (clear r)))) =
     getMappingCount (initializeCapabilityMappings (clear r)) \<and>
   getConversionCount
     (initializeValueConversions h
        (ValueConversionRegistry_clear (initializeValueConversions h (ValueConversionRegistry_clear v)))) =
     getConversionCount (initializeValueConversions h (ValueConversionRegistry_clear v))"
  by (simp add: standard_getMappingCount standard_count)

text \<open>\<^bold>\<open>C10.\<close> A converter that throws is not caught: when \<^verbatim>\<open>JSON.parse\<close> throws \<open>e\<close> on a
  string, \<^verbatim>\<open>fromPlatform(TUYA, COLOR, "color", s)\<close> on the standard conversions throws the
  same \<open>e\<close>; and in any registry, when the converter registered for a triple throws \<open>e\<close> on
  \<open>x\<close>, \<^verbatim>\<open>toPlatform\<close> and \<^verbatim>\<open>fromPlatform\<close> throw that \<open>e\<close>. Both take the registry as a
  value they only read (the source assigns to no field in them), so the call leaves the
  stored state as it was.\<close>

theorem C10_converter_errors_propagate:
  "(JSON_parse h (JStr s) = Inl e \<longrightarrow>
      ValueConversionRegistry_fromPlatform (initializeValueConversions h (ValueConversionRegistry_clear r))
        TUYA COLOR ''color'' (JStr s) = Inl e) \<and>
   (getConversion R p c a = Some cv \<and> toPlatform cv x = Inl e' \<longrightarrow>
      ValueConversionRegistry_toPlatform R p c a x = Inl e') \<and>
   (getConversion R p c a = Some cv \<and> fromPlatform cv x = Inl e' \<longrightarrow>
      ValueConversionRegistry_fromPlatform R p c a x = Inl e')"
  by (simp add: toPlatform_getConversion fromPlatform_getConversion standard_getConversion
      standard_conversions_def tuya_color_fromPlatform_def)

text \<open>C10 on the example host: \<^verbatim>\<open>JSON.parse\<close> throws a SyntaxError on \<^verbatim>\<open>not json\<close>, and the
  Lutron converter to the platform throws a TypeError on a string.\<close>

theorem C10_converter_errors_propagate_witness:
  "JSON_parse example_host (JStr ''not json'') = Inl SyntaxError \<and>
   ValueConversionRegistry_fromPlatform
     (initializeValueConversions example_host (ValueConversionRegistry_clear ValueConversionRegistry_new))
     TUYA COLOR ''color'' (JStr ''not json'') = Inl SyntaxError \<and>
   getConversion
     (initializeValueConversions example_host (ValueConversionRegistry_clear ValueConversionRegistry_new))
     LUTRON DIMMER ''level'' = Some (standard_conversions example_host ! 3) \<and>
   toPlatform (standard_conversions example_host ! 3) (JStr ''abc'') = Inl TypeError \<and>
   ValueConversionRegistry_toPlatform
     (initializeValueConversions example_host (ValueConversionRegistry_clear ValueConversionRegistry_new))
     LUTRON DIMMER ''level'' (JStr ''abc'') = Inl TypeError \<and>
   getConversion
     (initializeValueConversions example_host (ValueConversionRegistry_clear ValueConversionRegistry_new))
     TUYA COLOR ''color'' = Some (standard_conversions example_host ! 2) \<and>
   fromPlatform (standard_conversions example_host ! 2) (JStr ''null'') = Inl TypeError \<and>
   ValueConversionRegistry_fromPlatform
     (initializeValueConversions example_host (ValueConversionRegistry_clear ValueConversionRegistry_new))
     TUYA COLOR ''color'' (JStr ''null'') = Inl TypeError"
proof -
  let ?S = "initializeValueConversions example_host (ValueConversionRegistry_clear ValueConversionRegistry_new)"
  have a: "JSON_parse example_host (JStr ''not json'') = Inl SyntaxError"
    by (simp add: example_host_def)
  have b: "getConversion ?S LUTRON DIMMER ''level'' = Some (standard_conversions example_host ! 3)"
    by (simp add: standard_getConversion)
  have c: "toPlatform (standard_conversions example_host ! 3) (JStr ''abc'') = Inl TypeError"
    by (simp add: standard_conversions_def)
  have d: "getConversion ?S TUYA COLOR ''color'' = Some (standard_conversions example_host ! 2)"
    by (simp add: standard_getConversion)
  have e: "fromPlatform (standard_conversions example_host ! 2) (JStr ''null'') = Inl TypeError"
    by (simp add: standard_conversions_def tuya_color_fromPlatform_def example_host_def)
  from a b c d e
    C10_converter_errors_propagate [of example_host "''not json''" SyntaxError ValueConversionRegistry_new
      ?S LUTRON DIMMER "''level''" "standard_conversions example_host ! 3" "JStr ''abc''" TypeError]
    C10_converter_errors_propagate [of example_host "''not json''" SyntaxError ValueConversionRegistry_new
      ?S TUYA COLOR "''color''" "standard_conversions example_host ! 2" "JStr ''null''" TypeError]
  show ?thesis
    by blast
qed

end
